theory Spec2Isabelle
  imports Complex_Main
begin

section \<open>JavaScript strings and numbers\<close>

text \<open>
  A JavaScript string is a sequence of UTF-16 code units. The sources match on characters
  outside ASCII (U+7B2C, U+96C6, U+8BDD and others in the regular expressions), so a string
  is modelled as the list of its code units, each a natural number below 65536.
  \<open>js\<close> writes an ASCII literal.
\<close>

type_synonym jsstring = "nat list"

definition js :: "string \<Rightarrow> jsstring" where
  "js s = map of_char s"

text \<open>
  WhiteSpace and LineTerminator of ECMAScript: what \<open>String.prototype.trim\<close>,
  the leading-blank skipping of \<open>parseInt\<close> and the class \<open>\s\<close> of a regular
  expression accept.
\<close>

definition isWhiteSpace :: "nat \<Rightarrow> bool" where
  "isWhiteSpace c \<longleftrightarrow>
     c = 9 \<or> c = 10 \<or> c = 11 \<or> c = 12 \<or> c = 13 \<or> c = 32 \<or> c = 160 \<or> c = 5760 \<or>
     (8192 \<le> c \<and> c \<le> 8202) \<or> c = 8232 \<or> c = 8233 \<or> c = 8239 \<or> c = 8287 \<or>
     c = 12288 \<or> c = 65279"

definition isDigit :: "nat \<Rightarrow> bool" where
  "isDigit c \<longleftrightarrow> 48 \<le> c \<and> c \<le> 57"

definition isHexDigit :: "nat \<Rightarrow> bool" where
  "isHexDigit c \<longleftrightarrow> isDigit c \<or> (65 \<le> c \<and> c \<le> 70) \<or> (97 \<le> c \<and> c \<le> 102)"

text \<open>The value of a digit in a radix up to 16 (\<open>0-9\<close>, \<open>A-F\<close>, \<open>a-f\<close>).\<close>

definition digitValue :: "nat \<Rightarrow> nat" where
  "digitValue c = (if isDigit c then c - 48 else if 97 \<le> c then c - 87 else c - 55)"

text \<open>\<open>String.prototype.trim\<close>.\<close>

definition trim :: "jsstring \<Rightarrow> jsstring" where
  "trim s = rev (dropWhile isWhiteSpace (rev (dropWhile isWhiteSpace s)))"

text \<open>
  \<open>s.split(",")\<close>: the pieces between the commas; the result is never empty
  (the empty string gives one empty piece).
\<close>

fun split_comma :: "jsstring \<Rightarrow> jsstring list" where
  "split_comma [] = [[]]"
| "split_comma (c # cs) =
     (if c = 44 then [] # split_comma cs
      else (case split_comma cs of [] \<Rightarrow> [[c]] | piece # pieces \<Rightarrow> (c # piece) # pieces))"

text \<open>\<open>parts[i]\<close>: reading beyond the end of an array gives \<open>undefined\<close>, here \<open>None\<close>.\<close>

definition at_index :: "'a list \<Rightarrow> nat \<Rightarrow> 'a option" where
  "at_index xs i = (if i < length xs then Some (xs ! i) else None)"

text \<open>
  A JavaScript number that is not an integer counter: the comment's time in seconds. The
  values are \<open>NaN\<close>, the two infinities and the finite ones (all rational; the two zeros
  are not told apart, both are falsy).
\<close>

datatype jsnum = NaN | PosInfinity | NegInfinity | Finite rat

definition truthy_num :: "jsnum \<Rightarrow> bool" where
  "truthy_num x \<longleftrightarrow> x \<noteq> NaN \<and> x \<noteq> Finite 0"

text \<open>\<open>a || b\<close> on numbers: \<open>a\<close> unless it is falsy (\<open>NaN\<close> or zero).\<close>

definition or_num :: "jsnum \<Rightarrow> jsnum \<Rightarrow> jsnum" where
  "or_num a b = (if truthy_num a then a else b)"

text \<open>
  \<open>parseInt(string)\<close> with no radix, by the steps of ECMAScript: skip leading white space,
  read a sign, strip a \<open>0x\<close>/\<open>0X\<close> prefix (radix 16, else radix 10), take the longest
  prefix of digits of the radix; no digit gives \<open>NaN\<close> (here \<open>None\<close>), else the signed value.
  The result is the mathematical integer; JavaScript rounds it to a double, which changes
  nothing up to \<open>2 ^ 53\<close> in magnitude, and never turns a value into zero or a zero into
  something else.
\<close>

definition radixValue :: "nat \<Rightarrow> jsstring \<Rightarrow> nat" where
  "radixValue r ds = foldl (\<lambda>acc d. acc * r + digitValue d) 0 ds"

definition digitsValue :: "nat \<Rightarrow> jsstring \<Rightarrow> int option" where
  "digitsValue r z = (if z = [] then None else Some (int (radixValue r z)))"

definition parseMagnitude :: "jsstring \<Rightarrow> int option" where
  "parseMagnitude s =
     (case s of
        a # b # rest \<Rightarrow>
          if a = 48 \<and> (b = 120 \<or> b = 88) then digitsValue 16 (takeWhile isHexDigit rest)
          else digitsValue 10 (takeWhile isDigit s)
      | _ \<Rightarrow> digitsValue 10 (takeWhile isDigit s))"

definition parseSigned :: "jsstring \<Rightarrow> int option" where
  "parseSigned s =
     (case s of
        [] \<Rightarrow> None
      | c # cs \<Rightarrow>
          if c = 45 then map_option uminus (parseMagnitude cs)
          else if c = 43 then parseMagnitude cs
          else parseMagnitude s)"

definition parseInt :: "jsstring \<Rightarrow> int option" where
  "parseInt inputString = parseSigned (dropWhile isWhiteSpace inputString)"

text \<open>
  \<open>parseInt(parts[i])\<close> and \<open>parseFloat(parts[i])\<close>: an absent element is
  \<open>undefined\<close>, which both first turn into the string \<open>"undefined"\<close>.
\<close>

definition toStringArg :: "jsstring option \<Rightarrow> jsstring" where
  "toStringArg x = (case x of None \<Rightarrow> js ''undefined'' | Some s \<Rightarrow> s)"

definition parseInt_arg :: "jsstring option \<Rightarrow> int option" where
  "parseInt_arg x = parseInt (toStringArg x)"

text \<open>\<open>parseInt(x) || d\<close>: the default replaces \<open>NaN\<close> and also zero, both falsy.\<close>

definition or_default :: "int option \<Rightarrow> int \<Rightarrow> int" where
  "or_default x d = (case x of None \<Rightarrow> d | Some n \<Rightarrow> if n = 0 then d else n)"

text \<open>
  \<open>Number.prototype.toString(16)\<close> on an integer: lower-case digits, most significant
  first, a leading minus sign for a negative number.
\<close>

definition hexChar :: "nat \<Rightarrow> nat" where
  "hexChar d = (if d < 10 then 48 + d else 87 + d)"

fun hexDigits :: "nat \<Rightarrow> jsstring" where
  "hexDigits n = (if n < 16 then [hexChar n] else hexDigits (n div 16) @ [hexChar (n mod 16)])"

definition toString16 :: "int \<Rightarrow> jsstring" where
  "toString16 n = (if n < 0 then 45 # hexDigits (nat (- n)) else hexDigits (nat n))"

text \<open>\<open>s.padStart(n, "0")\<close>.\<close>

definition padStart0 :: "nat \<Rightarrow> jsstring \<Rightarrow> jsstring" where
  "padStart0 n s = replicate (n - length s) 48 @ s"

text \<open>
  \<open>toUpperCase\<close>, on the strings it is applied to here: the output of \<open>toString(16)\<close>
  and \<open>padStart\<close>, made of digits, \<open>a-f\<close> and the minus sign. Only the ASCII letters
  change.
\<close>

definition toUpperCase :: "jsstring \<Rightarrow> jsstring" where
  "toUpperCase s = map (\<lambda>c. if 97 \<le> c \<and> c \<le> 122 then c - 32 else c) s"

section \<open>The comment normalizer (danmaku-service.ts)\<close>

text \<open>
  \<open>RawComment\<close> and \<open>DanmakuItem\<close> of the source. The item's field \<open>text\<close> is written
  \<open>text'\<close>; \<open>mode\<close> has the type \<open>0 | 1 | 2\<close> in the source, a natural number here.
\<close>

record raw_comment =
  cid :: int
  p :: jsstring
  m :: jsstring
  t :: jsnum

record danmaku_item =
  text' :: jsstring
  time :: jsnum
  color :: jsstring
  mode :: nat
  border :: "bool option"

text \<open>
  \<open>convertToDanmakuItem\<close> (lines 232-255). \<open>parseFloat\<close> is a parameter: its result is
  a double, and every theorem below holds whatever it returns.
\<close>

definition convertToDanmakuItem :: "(jsstring \<Rightarrow> jsnum) \<Rightarrow> raw_comment \<Rightarrow> danmaku_item" where
  "convertToDanmakuItem parseFloat comment =
     (let parts = split_comma (p comment);
          timeFromP = or_num (parseFloat (toStringArg (at_index parts 0))) (t comment);
          modeFromP = or_default (parseInt_arg (at_index parts 1)) 1;
          colorFromP = or_default (parseInt_arg (at_index parts 2)) 16777215;
          artMode = (if modeFromP = 5 then 1 else if modeFromP = 4 then 2 else 0);
          colorHex = js ''#'' @ toUpperCase (padStart0 6 (toString16 colorFromP))
      in \<lparr> text' = m comment, time = timeFromP, color = colorHex, mode = artMode, border = None \<rparr>)"

text \<open>
  The rendering the specification asks for, in its own words: six upper-case base-16 digits,
  zero-padded, most significant first (RGB packed as 0xRRGGBB).
\<close>

definition hexUpper :: "nat \<Rightarrow> nat" where
  "hexUpper d = (if d < 10 then 48 + d else 55 + d)"




text \<open>A token with no decimal digit in it: what the specification calls non-numeric.\<close>

definition non_numeric :: "jsstring \<Rightarrow> bool" where
  "non_numeric tok = list_all (\<lambda>c. \<not> isDigit c) tok"

section \<open>The catalogue client and the resolver (danmaku-service.ts)\<close>

text \<open>
  The regular expressions of the source use literals, classes, alternation, greedy
  repetition, optional parts, one capturing group and the end anchor. \<open>Sym f\<close> is one
  code unit accepted by \<open>f\<close>, \<open>Eps\<close> the empty match, \<open>Eos\<close> the anchor \<open>$\<close>,
  \<open>Grp r\<close> a capturing group.
\<close>

datatype rx =
    Sym "nat \<Rightarrow> bool"
  | Eps
  | Eos
  | Seq rx rx
  | Alt rx rx
  | Star rx
  | Grp rx

text \<open>
  The backtracking matcher of ECMAScript at one position: every way the expression matches
  a prefix of the input, in the order a JavaScript engine tries them (the left alternative
  first, a repetition as long as possible first), each with the text of the group (if it
  took part) and the input left. An iteration of a repetition that consumes nothing is
  rejected, as in ECMAScript.
\<close>

fun matches :: "rx \<Rightarrow> jsstring \<Rightarrow> (jsstring option \<times> jsstring) list" where
  "matches (Sym f) s = (case s of [] \<Rightarrow> [] | c # cs \<Rightarrow> if f c then [(None, cs)] else [])"
| "matches Eps s = [(None, s)]"
| "matches Eos s = (if s = [] then [(None, [])] else [])"
| "matches (Seq a b) s =
     concat (map (\<lambda>(c1, s1).
        map (\<lambda>(c2, s2). (case c2 of None \<Rightarrow> c1 | Some x \<Rightarrow> Some x, s2)) (matches b s1))
       (matches a s))"
| "matches (Alt a b) s = matches a s @ matches b s"
| "matches (Star a) s =
     concat (map (\<lambda>(c1, s1). if length s1 < length s then matches (Star a) s1 else [])
       (matches a s)) @ [(None, s)]"
| "matches (Grp a) s =
     map (\<lambda>(c, s1). (Some (take (length s - length s1) s), s1)) (matches a s)"

text \<open>The match a JavaScript engine returns at a position: the first of them.\<close>

definition exec_at :: "rx \<Rightarrow> jsstring \<Rightarrow> (jsstring option \<times> jsstring) option" where
  "exec_at r s = (case matches r s of [] \<Rightarrow> None | x # _ \<Rightarrow> Some x)"

text \<open>
  The leftmost match: the positions are tried from left to right. The result is the text
  before the match, the group and the text after the match.
\<close>

fun search :: "rx \<Rightarrow> jsstring \<Rightarrow> jsstring \<Rightarrow> (jsstring \<times> jsstring option \<times> jsstring) option" where
  "search r pre [] =
     (case exec_at r [] of None \<Rightarrow> None | Some (c, rest) \<Rightarrow> Some (pre, c, rest))"
| "search r pre (x # xs) =
     (case exec_at r (x # xs) of
        None \<Rightarrow> search r (pre @ [x]) xs
      | Some (c, rest) \<Rightarrow> Some (pre, c, rest))"

text \<open>
  \<open>s.match(r)\<close> for an expression without the flag \<open>g\<close>, reduced to what the source
  reads of it: \<open>None\<close> for \<open>null\<close>, else the element 1 of the result (the group).
\<close>

definition match_group1 :: "rx \<Rightarrow> jsstring \<Rightarrow> jsstring option option" where
  "match_group1 r s = (case search r [] s of None \<Rightarrow> None | Some (_, c, _) \<Rightarrow> Some c)"

text \<open>
  \<open>s.replace(r, rep)\<close>: the leftmost match only without the flag \<open>g\<close>, every match
  from left to right with it (after an empty match the search moves on by one code unit).
\<close>

definition replace_first :: "rx \<Rightarrow> jsstring \<Rightarrow> jsstring \<Rightarrow> jsstring" where
  "replace_first r rep s =
     (case search r [] s of None \<Rightarrow> s | Some (pre, _, rest) \<Rightarrow> pre @ rep @ rest)"

fun replace_all :: "rx \<Rightarrow> jsstring \<Rightarrow> jsstring \<Rightarrow> jsstring" where
  "replace_all r rep s =
     (case exec_at r s of
        None \<Rightarrow> (case s of [] \<Rightarrow> [] | x # xs \<Rightarrow> x # replace_all r rep xs)
      | Some (c, rest) \<Rightarrow>
          if length rest < length s then rep @ replace_all r rep rest
          else (case s of [] \<Rightarrow> rep | x # xs \<Rightarrow> rep @ x # replace_all r rep xs))"

text \<open>
  A literal under the flag \<open>i\<close>: an ASCII letter matches in both cases; no character
  outside ASCII matches an ASCII letter (ECMAScript's Canonicalize without the flag \<open>u\<close>).
\<close>

definition ci :: "nat \<Rightarrow> nat \<Rightarrow> bool" where
  "ci c x \<longleftrightarrow> x = c \<or> (65 \<le> c \<and> c \<le> 90 \<and> x = c + 32) \<or> (97 \<le> c \<and> c \<le> 122 \<and> x + 32 = c)"

fun lit :: "jsstring \<Rightarrow> rx" where
  "lit [] = Eps"
| "lit (c # cs) = Seq (Sym (\<lambda>x. x = c)) (lit cs)"

fun litI :: "jsstring \<Rightarrow> rx" where
  "litI [] = Eps"
| "litI (c # cs) = Seq (Sym (ci c)) (litI cs)"

fun alts :: "rx list \<Rightarrow> rx" where
  "alts [] = Sym (\<lambda>_. False)"
| "alts [r] = r"
| "alts (r # rs) = Alt r (alts rs)"

definition opt :: "rx \<Rightarrow> rx" where "opt r = Alt r Eps"
definition plus :: "rx \<Rightarrow> rx" where "plus r = Seq r (Star r)"
definition digit :: rx where "digit = Sym isDigit"
definition oneOf :: "nat list \<Rightarrow> rx" where "oneOf cs = Sym (\<lambda>x. x \<in> set cs)"

text \<open>
  The two expressions of lines 358-359: \<open>/(?:E|EP|\u7B2C)(\d+)(?:\u96C6|\u8BDD)?/i\<close> and
  \<open>/S\d+E(\d+)/i\<close>. The characters outside ASCII are given by their code units: 31532 is
  U+7B2C, 38598 is U+96C6, 35805 is U+8BDD, 23395 is U+5B63.
\<close>

definition rx_episode_token :: rx where
  "rx_episode_token =
     Seq (alts [litI (js ''E''), litI (js ''EP''), lit [31532]])
       (Seq (Grp (plus digit)) (opt (alts [lit [38598], lit [35805]])))"

definition rx_season_episode :: rx where
  "rx_season_episode =
     Seq (litI (js ''S'')) (Seq (plus digit) (Seq (litI (js ''E'')) (Grp (plus digit))))"

text \<open>
  The expressions of \<open>extractSearchKeyword\<close> (lines 265-289), in the order of the source;
  \<open>separators\<close> is their common prefix \<open>[.\s_-]*\<close>. 65288 and 65289 are the full-width
  parentheses, 12304 and 12305 the lenticular brackets.
\<close>

definition separators :: rx where
  "separators = Star (Sym (\<lambda>x. x = 46 \<or> isWhiteSpace x \<or> x = 95 \<or> x = 45))"

definition rx_extension :: rx where
  "rx_extension =
     Seq (lit (js ''.''))
       (Seq (Grp (alts [litI (js ''mp4''), litI (js ''mkv''), litI (js ''avi''), litI (js ''wmv''),
                        litI (js ''flv''), litI (js ''m3u8''), litI (js ''ts'')])) Eos)"

definition rx_season_markers :: rx where
  "rx_season_markers =
     Seq separators
       (Grp (alts [Seq (litI (js ''S'')) (Seq (plus digit) (Seq (litI (js ''E'')) (plus digit))),
                   Seq (lit [31532]) (Seq (plus digit) (oneOf [23395, 38598, 35805])),
                   Seq (litI (js ''E'')) (Seq (opt (litI (js ''P''))) (plus digit)),
                   Seq (plus digit) (lit [38598])]))"

definition rx_resolution :: rx where
  "rx_resolution =
     Seq separators
       (Grp (alts [litI (js ''1080p''), litI (js ''720p''), litI (js ''4K''), litI (js ''2160p''),
                   litI (js ''HDR'')]))"

definition rx_codec :: rx where
  "rx_codec =
     Seq separators
       (Grp (alts [litI (js ''HEVC''),
                   Seq (litI (js ''H'')) (Seq (opt (lit (js ''.''))) (lit (js ''265''))),
                   Seq (litI (js ''H'')) (Seq (opt (lit (js ''.''))) (lit (js ''264''))),
                   litI (js ''AAC''), litI (js ''DDP''), litI (js ''DD5.1''), litI (js ''WEB-DL'')]))"

definition rx_year :: rx where
  "rx_year =
     Seq (opt (oneOf [91, 40, 65288]))
       (Seq digit (Seq digit (Seq digit (Seq digit (opt (oneOf [93, 41, 65289]))))))"

definition rx_punctuation :: rx where
  "rx_punctuation = oneOf [46, 95, 91, 93, 12304, 12305, 40, 41, 65288, 65289]"

definition rx_spaces :: rx where
  "rx_spaces = plus (Sym isWhiteSpace)"

text \<open>\<open>extractSearchKeyword\<close> (lines 261-292).\<close>

definition extractSearchKeyword :: "jsstring \<Rightarrow> jsstring" where
  "extractSearchKeyword title =
     (if title = [] then []
      else
        trim (replace_all rx_spaces (js '' '')
          (replace_all rx_punctuation (js '' '')
            (replace_all rx_year []
              (replace_all rx_codec []
                (replace_all rx_resolution []
                  (replace_all rx_season_markers []
                    (replace_first rx_extension [] title))))))))"

text \<open>
  The interfaces of the source. Only the fields the modelled functions read are kept.
  A field that the source tests before use is optional here, and so is \<open>episodes\<close>,
  which the source reads without a test (line 356): the JSON of the remote service is not
  validated. Where two interfaces share a field name, the response's field carries the
  response's name: \<open>success\<close> of \<open>SearchAnimeResponse\<close> is \<open>search_success\<close>, and
  so on. \<open>episodeTitle\<close> and \<open>message\<close> of \<open>AutoLoadResult\<close> are written
  \<open>episodeTitle'\<close> and \<open>message'\<close>.
\<close>

record anime =
  animeId :: nat
  bangumiId :: jsstring
  animeTitle :: jsstring
  episodeCount :: nat

record episode =
  seasonId :: jsstring
  episodeId :: nat
  episodeTitle :: jsstring
  episodeNumber :: jsstring
  airDate :: jsstring

record bangumi =
  isOnAir :: bool
  episodes :: "episode list option"

record search_response =
  search_success :: bool
  animes :: "anime list option"

record bangumi_response =
  bangumi_success :: bool
  bangumi :: "bangumi option"

record comment_response =
  comments :: "raw_comment list option"

record match_response =
  match_success :: bool
  isMatched :: bool
  match_episodeId :: "nat option"
  match_animeTitle :: "jsstring option"
  match_episodeTitle :: "jsstring option"

text \<open>
  The messages of \<open>autoLoadDanmaku\<close> (the texts are Chinese):
  \<^item> \<open>MsgEmptyTitle\<close> (314): the video title is empty;
  \<^item> \<open>MsgLoaded n\<close> (336): \<open>n\<close> comments loaded;
  \<^item> \<open>MsgMatchedNoComments\<close> (344): matched, but the episode has no comments yet;
  \<^item> \<open>MsgLoadedBySearch n\<close> (379): \<open>n\<close> comments loaded (matched by search);
  \<^item> \<open>MsgNotFound\<close> (389): no matching comments found, search manually;
  \<^item> \<open>MsgAutoLoadFailed\<close> (396): automatic loading failed, search manually.
\<close>

datatype load_message =
    MsgEmptyTitle
  | MsgLoaded nat
  | MsgMatchedNoComments
  | MsgLoadedBySearch nat
  | MsgNotFound
  | MsgAutoLoadFailed

record auto_load_result =
  success :: bool
  danmaku :: "danmaku_item list"
  matchedTitle :: "jsstring option"
  episodeTitle' :: "jsstring option"
  message' :: load_message

text \<open>
  What \<open>fetch\<close> and \<open>response.json()\<close> yield for a request: the request fails (the
  promise rejects), the response is not \<open>ok\<close>, the body is not JSON, or the body parsed.
  The remote service is what it answers to each of the four requests.
\<close>

datatype 'a fetched = NetworkFailure | HttpStatus nat | UnreadableBody | Body 'a

record catalog =
  fetch_search :: "jsstring \<Rightarrow> search_response fetched"
  fetch_bangumi :: "nat \<Rightarrow> bangumi_response fetched"
  fetch_comment :: "nat \<Rightarrow> comment_response fetched"
  fetch_match :: "jsstring \<Rightarrow> match_response fetched"

text \<open>
  \<open>encodeURIComponent\<close> throws a \<open>URIError\<close> on a string with a lone surrogate; this
  is the test.
\<close>

fun well_formed_utf16 :: "jsstring \<Rightarrow> bool" where
  "well_formed_utf16 [] = True"
| "well_formed_utf16 [c] = (\<not> (55296 \<le> c \<and> c \<le> 57343))"
| "well_formed_utf16 (c # d # cs) =
     (if 55296 \<le> c \<and> c \<le> 56319 then 56320 \<le> d \<and> d \<le> 57343 \<and> well_formed_utf16 cs
      else if 56320 \<le> c \<and> c \<le> 57343 then False
      else well_formed_utf16 (d # cs))"

text \<open>
  \<open>searchAnime\<close>, \<open>getBangumi\<close>, \<open>getComments\<close> and \<open>matchAnime\<close> (lines 113-224).
  Each catches every exception of its body and returns the empty result.
\<close>

definition searchAnime :: "catalog \<Rightarrow> jsstring \<Rightarrow> anime list" where
  "searchAnime remote keyword =
     (if keyword = [] \<or> trim keyword = [] then []
      else if \<not> well_formed_utf16 keyword then []
      else (case fetch_search remote keyword of
              Body data \<Rightarrow>
                (if search_success data then (case animes data of Some found \<Rightarrow> found | None \<Rightarrow> [])
                 else [])
            | _ \<Rightarrow> []))"

definition getBangumi :: "catalog \<Rightarrow> nat \<Rightarrow> bangumi option" where
  "getBangumi remote anime_id =
     (case fetch_bangumi remote anime_id of
        Body data \<Rightarrow> (if bangumi_success data then bangumi data else None)
      | _ \<Rightarrow> None)"

definition getComments :: "catalog \<Rightarrow> (jsstring \<Rightarrow> jsnum) \<Rightarrow> nat \<Rightarrow> danmaku_item list" where
  "getComments remote parseFloat episode_id =
     (case fetch_comment remote episode_id of
        Body data \<Rightarrow>
          (case comments data of
             Some raw \<Rightarrow> (if length raw > 0 then map (convertToDanmakuItem parseFloat) raw else [])
           | None \<Rightarrow> [])
      | _ \<Rightarrow> [])"

definition matchAnime :: "catalog \<Rightarrow> jsstring \<Rightarrow> match_response option" where
  "matchAnime remote fileName =
     (case fetch_match remote fileName of Body data \<Rightarrow> Some data | _ \<Rightarrow> None)"

text \<open>
  The choice of the episode (lines 357-370). \<open>episodeMatch\<close> is the first expression's
  match or else the second's; \<open>===\<close> on two numbers is false when either is \<open>NaN\<close>;
  \<open>Array.prototype.find\<close> returns the first element that passes. An empty list has no
  episode to choose (the test of line 356 fails): \<open>None\<close>.
  The numbers compared are doubles: \<open>parseInt\<close> rounds the integer it read to a double
  (two integers beyond \<open>2 ^ 53\<close> can round to the same one). The rounding \<open>toDouble\<close>
  is a parameter, as \<open>parseFloat\<close> is, and every theorem below holds whatever it is.
\<close>

definition numberOf :: "(int \<Rightarrow> jsnum) \<Rightarrow> int option \<Rightarrow> jsnum" where
  "numberOf toDouble x = (case x of None \<Rightarrow> NaN | Some n \<Rightarrow> toDouble n)"

definition episodeMatch :: "jsstring \<Rightarrow> jsstring option option" where
  "episodeMatch videoTitle =
     (case match_group1 rx_episode_token videoTitle of
        Some g \<Rightarrow> Some g
      | None \<Rightarrow> match_group1 rx_season_episode videoTitle)"

definition strict_equal :: "jsnum \<Rightarrow> jsnum \<Rightarrow> bool" where
  "strict_equal a b \<longleftrightarrow> a \<noteq> NaN \<and> b \<noteq> NaN \<and> a = b"

definition targetEpisode :: "(int \<Rightarrow> jsnum) \<Rightarrow> jsstring \<Rightarrow> episode list \<Rightarrow> episode option" where
  "targetEpisode toDouble videoTitle eps =
     (case eps of
        [] \<Rightarrow> None
      | first # _ \<Rightarrow>
          Some (case episodeMatch videoTitle of
                  None \<Rightarrow> first
                | Some g \<Rightarrow>
                    (case find (\<lambda>ep. strict_equal (numberOf toDouble (parseInt (episodeNumber ep)))
                                            (numberOf toDouble (parseInt_arg g))) eps of
                       Some found \<Rightarrow> found
                     | None \<Rightarrow> first)))"

text \<open>
  \<open>autoLoadDanmaku\<close> (lines 309-399). A function of the source may throw, so the model
  returns a sum: \<open>Inl\<close> an exception, \<open>Inr\<close> a result. \<open>autoLoad_try\<close> is the body
  of the \<open>try\<close> (lines 321-390); with the elements of the lists being the records
  the interfaces declare, the only expression of it that can throw is
  \<open>bangumi.episodes.length\<close> when the detail has no episode list (a \<open>TypeError\<close>).
  \<open>URIError\<close> is what \<open>encodeURIComponent\<close> throws on a lone surrogate.
\<close>

datatype exn = TypeError | URIError

definition notFound :: auto_load_result where
  "notFound =
     \<lparr> success = False, danmaku = [], matchedTitle = None, episodeTitle' = None,
       message' = MsgNotFound \<rparr>"

definition searchFallback ::
  "catalog \<Rightarrow> (jsstring \<Rightarrow> jsnum) \<Rightarrow> (int \<Rightarrow> jsnum) \<Rightarrow> jsstring \<Rightarrow> exn + auto_load_result" where
  "searchFallback remote parseFloat toDouble videoTitle =
     (case extractSearchKeyword videoTitle of
        [] \<Rightarrow> Inr notFound
      | k # ks \<Rightarrow>
          (case searchAnime remote (k # ks) of
             [] \<Rightarrow> Inr notFound
           | first_anime # _ \<Rightarrow>
               (case getBangumi remote (animeId first_anime) of
                  None \<Rightarrow> Inr notFound
                | Some detail \<Rightarrow>
                    (case episodes detail of
                       None \<Rightarrow> Inl TypeError
                     | Some eps \<Rightarrow>
                         (case targetEpisode toDouble videoTitle eps of
                            None \<Rightarrow> Inr notFound
                          | Some target \<Rightarrow>
                              (case getComments remote parseFloat (episodeId target) of
                                 [] \<Rightarrow> Inr notFound
                               | d # ds \<Rightarrow>
                                   Inr \<lparr> success = True, danmaku = d # ds,
                                         matchedTitle = Some (animeTitle first_anime),
                                         episodeTitle' = Some (episodeTitle target),
                                         message' = MsgLoadedBySearch (length (d # ds)) \<rparr>))))))"

definition usableMatch :: "match_response option \<Rightarrow> (match_response \<times> nat) option" where
  "usableMatch matchResult =
     (case matchResult of
        None \<Rightarrow> None
      | Some r \<Rightarrow>
          (if match_success r \<and> isMatched r then
             (case match_episodeId r of
                None \<Rightarrow> None
              | Some eid \<Rightarrow> if eid = 0 then None else Some (r, eid))
           else None))"

definition autoLoad_try ::
  "catalog \<Rightarrow> (jsstring \<Rightarrow> jsnum) \<Rightarrow> (int \<Rightarrow> jsnum) \<Rightarrow> jsstring \<Rightarrow> exn + auto_load_result" where
  "autoLoad_try remote parseFloat toDouble videoTitle =
     (case usableMatch (matchAnime remote videoTitle) of
        Some (matchResult, eid) \<Rightarrow>
          (case getComments remote parseFloat eid of
             [] \<Rightarrow>
               Inr \<lparr> success = False, danmaku = [],
                     matchedTitle = match_animeTitle matchResult,
                     episodeTitle' = match_episodeTitle matchResult,
                     message' = MsgMatchedNoComments \<rparr>
           | d # ds \<Rightarrow>
               Inr \<lparr> success = True, danmaku = d # ds,
                     matchedTitle = match_animeTitle matchResult,
                     episodeTitle' = match_episodeTitle matchResult,
                     message' = MsgLoaded (length (d # ds)) \<rparr>)
      | None \<Rightarrow> searchFallback remote parseFloat toDouble videoTitle)"

definition autoLoadDanmaku ::
  "catalog \<Rightarrow> (jsstring \<Rightarrow> jsnum) \<Rightarrow> (int \<Rightarrow> jsnum) \<Rightarrow> jsstring \<Rightarrow> exn + auto_load_result" where
  "autoLoadDanmaku remote parseFloat toDouble videoTitle =
     (if videoTitle = [] \<or> trim videoTitle = [] then
        Inr \<lparr> success = False, danmaku = [], matchedTitle = None, episodeTitle' = None,
              message' = MsgEmptyTitle \<rparr>
      else (case autoLoad_try remote parseFloat toDouble videoTitle of
              Inr result \<Rightarrow> Inr result
            | Inl error \<Rightarrow>
                Inr \<lparr> success = False, danmaku = [], matchedTitle = None, episodeTitle' = None,
                      message' = MsgAutoLoadFailed \<rparr>))"

section \<open>The playback supervisor (LocalHlsPlayer)\<close>

text \<open>
  Modelled from the spec: the declarations of \<open>@/lib/player/types\<close> (\<open>ErrorType\<close>,
  \<open>PlayerError\<close>, \<open>HlsErrorData\<close>) and the result type of \<open>checkCorsSupport\<close>
  (\<open>@/lib/player/cors-check\<close>) are not among the sources. They are written here from
  their uses in the component and from the specification's error categories and its
  probe result \<open>{success, reason?: "cors" | "expired" | "other", code?}\<close>.
  \<open>EKey\<close> stands for the string \<open>"key"\<close>, and so on. The field \<open>type\<close> of
  \<open>HlsErrorData\<close> is written \<open>type'\<close>, the fields \<open>success\<close> and \<open>code\<close> of the
  probe result \<open>success'\<close> and \<open>code'\<close>.
\<close>

datatype error_type = EKey | EManifest | EFragment | ENetwork | EMedia | EUnknown

text \<open>
  The messages shown to the user, one constructor for each message of the source (the
  texts are Chinese; the lines are those of the source file):
  \<^item> \<open>MsgKeyNotFound\<close> (896): the encryption key does not exist (404);
  \<^item> \<open>MsgKeyLoadFailed\<close> (897): the encryption key failed to load;
  \<^item> \<open>MsgManifestNotFound\<close> (922): the video file does not exist (404);
  \<^item> \<open>MsgManifestExpired\<close> (924): the link has expired or is invalid (403);
  \<^item> \<open>MsgManifestHttp n\<close> (926): manifest load failed (HTTP \<open>n\<close>);
  \<^item> \<open>MsgManifestCheckNetwork\<close> (929): manifest load failed, check the network;
  \<^item> \<open>MsgFragmentNotFound\<close> (941): a segment does not exist (404), the video may be corrupt;
  \<^item> \<open>MsgNetworkNotFound\<close> (955): the resource does not exist (404);
  \<^item> \<open>MsgNetworkFailed\<close> (956): the network connection failed;
  \<^item> \<open>MsgMediaUnsupported\<close> (973): wrong format or unsupported codec;
  \<^item> \<open>MsgLoadFailed d\<close> (989): video load failed, followed by the event's details
    (\<open>None\<close>: by the words "unknown error", when the details are empty);
  \<^item> \<open>MsgInitFailed\<close> (855): the player failed to load, refresh and retry.
\<close>

datatype message =
    MsgKeyNotFound
  | MsgKeyLoadFailed
  | MsgManifestNotFound
  | MsgManifestExpired
  | MsgManifestHttp nat
  | MsgManifestCheckNetwork
  | MsgFragmentNotFound
  | MsgNetworkNotFound
  | MsgNetworkFailed
  | MsgMediaUnsupported
  | MsgLoadFailed "string option"
  | MsgInitFailed

record player_error =
  type :: error_type
  message :: message
  canRetry :: bool

text \<open>\<open>Hls.ErrorTypes\<close> of hls.js: the two the handler names, and every other one.\<close>

datatype hls_error_type = NETWORK_ERROR | MEDIA_ERROR | OTHER_ERROR

record hls_response =
  code :: "nat option"

record hls_error_data =
  details :: string
  response :: "hls_response option"
  fatal :: bool
  type' :: hls_error_type

datatype cors_reason = Cors | Expired | Other

record cors_result =
  success' :: bool
  reason :: "cors_reason option"
  code' :: "nat option"

text \<open>\<open>data.response?.code\<close>: \<open>undefined\<close> (here \<open>None\<close>) without a response or a code.\<close>

definition response_code :: "hls_error_data \<Rightarrow> nat option" where
  "response_code d = (case response d of None \<Rightarrow> None | Some r \<Rightarrow> code r)"

text \<open>The truth value of \<open>statusCode\<close>: \<open>undefined\<close> and 0 are falsy.\<close>

definition truthy_code :: "nat option \<Rightarrow> bool" where
  "truthy_code c = (case c of None \<Rightarrow> False | Some n \<Rightarrow> n \<noteq> 0)"

text \<open>The constants of lines 431-433.\<close>

definition MAX_NETWORK_RETRY :: nat where "MAX_NETWORK_RETRY = 3"
definition MAX_MEDIA_RETRY :: nat where "MAX_MEDIA_RETRY = 2"
definition MAX_KEY_ERROR :: nat where "MAX_KEY_ERROR = 5"

text \<open>
  The three counters the handler keeps in refs of the component (lines 471-473).
\<close>

record retry_counters =
  networkRetryCount :: nat
  mediaRetryCount :: nat
  keyErrorCount :: nat

datatype play_mode = Direct | Proxy | Detecting

text \<open>What a timer does when it fires (lines 960-965 and 976-981).\<close>

datatype timer_action = StartLoad | RecoverMediaError

text \<open>
  \<open>handleHlsError\<close> receives the engine and the setters of the component as parameters
  and acts by calling them. A call is a value; the handler returns the calls it makes, in
  order, and the counters as it leaves them. \<open>SetRetryCountIncrement\<close> is
  \<open>setRetryCount((prev) => prev + 1)\<close>; \<open>SetTimeout ms a\<close> is the \<open>setTimeout\<close> whose
  timer is added to \<open>timersRef\<close>.
\<close>

datatype call =
    SetPlayerError error_type message bool
  | HlsStopLoad
  | SetUseDirectPlay bool
  | SetPlayMode play_mode
  | SetRetryCountIncrement
  | SetTimeout nat timer_action

text \<open>\<open>handleHlsError\<close> (lines 876-995).\<close>

definition handleHlsError :: "hls_error_data \<Rightarrow> bool \<Rightarrow> retry_counters \<Rightarrow> call list \<times> retry_counters" where
  "handleHlsError data useDirectPlay refs =
     (if details data = ''keyLoadError'' \<or> details data = ''keyLoadTimeOut'' then
        (let refs1 = refs\<lparr>keyErrorCount := keyErrorCount refs + 1\<rparr> in
         if keyErrorCount refs1 > MAX_KEY_ERROR then
           ([SetPlayerError EKey
               (if response_code data = Some 404 then MsgKeyNotFound else MsgKeyLoadFailed) False,
             HlsStopLoad], refs1)
         else ([], refs1))
      else if details data = ''manifestLoadError'' then
        (let is404 = (response_code data = Some 404);
             is403 = (response_code data = Some 403);
             statusCode = response_code data in
         if useDirectPlay \<and> \<not> is404 \<and> \<not> is403 \<and> \<not> truthy_code statusCode then
           ([SetUseDirectPlay False, SetPlayMode Proxy, SetRetryCountIncrement], refs)
         else if is404 then ([SetPlayerError EManifest MsgManifestNotFound False], refs)
         else if is403 then ([SetPlayerError EManifest MsgManifestExpired False], refs)
         else (case statusCode of
                 Some n \<Rightarrow>
                   if n \<noteq> 0 then ([SetPlayerError EManifest (MsgManifestHttp n) True], refs)
                   else ([SetPlayerError EManifest MsgManifestCheckNetwork True], refs)
               | None \<Rightarrow> ([SetPlayerError EManifest MsgManifestCheckNetwork True], refs)))
      else if details data = ''fragLoadError'' \<and> response_code data = Some 404 then
        ([SetPlayerError EFragment MsgFragmentNotFound False], refs)
      else if fatal data then
        (case type' data of
           NETWORK_ERROR \<Rightarrow>
             (let refs1 = refs\<lparr>networkRetryCount := networkRetryCount refs + 1\<rparr> in
              if networkRetryCount refs1 > MAX_NETWORK_RETRY then
                ([SetPlayerError ENetwork
                    (if response_code data = Some 404 then MsgNetworkNotFound else MsgNetworkFailed) True,
                  HlsStopLoad], refs1)
              else ([SetTimeout (1000 * networkRetryCount refs1) StartLoad], refs1))
         | MEDIA_ERROR \<Rightarrow>
             (let refs1 = refs\<lparr>mediaRetryCount := mediaRetryCount refs + 1\<rparr> in
              if mediaRetryCount refs1 > MAX_MEDIA_RETRY then
                ([SetPlayerError EMedia MsgMediaUnsupported False, HlsStopLoad], refs1)
              else ([SetTimeout 500 RecoverMediaError], refs1))
         | OTHER_ERROR \<Rightarrow>
             ([SetPlayerError EUnknown
                 (MsgLoadFailed (if details data = [] then None else Some (details data))) True],
              refs))
      else ([], refs))"

text \<open>
  The state of the component: the React state (lines 444-451), the refs (470-474), and
  what the component has done to its collaborators: the commands sent to the streaming
  engine, oldest first, and the number of calls of the \<open>onError\<close> callback.
  \<open>hlsRef\<close> tells whether \<open>hlsRef.current\<close> holds an engine.
\<close>

datatype source_url = Plain jsstring | ViaProxy jsstring

datatype engine_command =
    LoadSource source_url
  | AttachMedia
  | StartLoadCommand
  | StopLoad'
  | DetachMedia
  | Destroy
  | RecoverMediaErrorCommand

record timer =
  delay :: nat
  action :: timer_action

record player_state =
  isLoading :: bool
  error :: "player_error option"
  retryCount :: nat
  useDirectPlay :: bool
  playMode :: play_mode
  isMounted :: bool
  counters :: retry_counters
  timers :: "timer list"
  hlsRef :: bool
  engine :: "engine_command list"
  onErrorCalls :: nat

text \<open>\<open>setPlayerError\<close> (lines 507-517).\<close>

definition setPlayerError :: "error_type \<Rightarrow> message \<Rightarrow> bool \<Rightarrow> player_state \<Rightarrow> player_state" where
  "setPlayerError ty msg retry s =
     (if \<not> isMounted s then s
      else s\<lparr> error := Some \<lparr> type = ty, message = msg, canRetry = retry \<rparr>,
              isLoading := False,
              onErrorCalls := (if \<not> retry then onErrorCalls s + 1 else onErrorCalls s) \<rparr>)"

text \<open>What each call of the handler does to the component.\<close>

fun perform :: "player_state \<Rightarrow> call \<Rightarrow> player_state" where
  "perform s (SetPlayerError ty msg retry) = setPlayerError ty msg retry s"
| "perform s HlsStopLoad = s\<lparr> engine := engine s @ [StopLoad'] \<rparr>"
| "perform s (SetUseDirectPlay b) = s\<lparr> useDirectPlay := b \<rparr>"
| "perform s (SetPlayMode pm) = s\<lparr> playMode := pm \<rparr>"
| "perform s SetRetryCountIncrement = s\<lparr> retryCount := retryCount s + 1 \<rparr>"
| "perform s (SetTimeout ms a) = s\<lparr> timers := timers s @ [\<lparr> delay = ms, action = a \<rparr>] \<rparr>"

text \<open>
  The engine's error event reaching the component (lines 721-735): the handler runs with
  the \<open>useDirectPlay\<close> its closure captured, on the component's counters, and its
  calls take effect in order.
\<close>

definition onHlsError :: "hls_error_data \<Rightarrow> bool \<Rightarrow> player_state \<Rightarrow> player_state" where
  "onHlsError data useDirect s =
     (case handleHlsError data useDirect (counters s) of
        (calls, refs) \<Rightarrow> foldl perform (s\<lparr> counters := refs \<rparr>) calls)"

text \<open>\<open>handleRetry\<close> (lines 520-527).\<close>

definition handleRetry :: "player_state \<Rightarrow> player_state" where
  "handleRetry s =
     s\<lparr> error := None, isLoading := True, retryCount := retryCount s + 1,
        counters := \<lparr> networkRetryCount = 0, mediaRetryCount = 0, keyErrorCount = 0 \<rparr> \<rparr>"

text \<open>
  \<open>getProxiedUrl\<close> (lines 496-504). \<open>ViaProxy url\<close> stands for the string
  \<open>/api/video-proxy/\<close> followed by \<open>encodeURIComponent(url)\<close>, which throws a
  \<open>URIError\<close> when the URL has a lone surrogate.
\<close>

definition getProxiedUrl :: "bool \<Rightarrow> jsstring \<Rightarrow> exn + source_url" where
  "getProxiedUrl useDirect url =
     (if url = [] then Inr (Plain [])
      else if take (length (js ''/api/video-proxy/'')) url = js ''/api/video-proxy/'' then Inr (Plain url)
      else if useDirect then Inr (Plain url)
      else if \<not> well_formed_utf16 url then Inl URIError
      else Inr (ViaProxy url))"

text \<open>
  \<open>cleanupPlayer\<close> (lines 530-560): the timers are cleared, the engine is stopped,
  detached and destroyed. (The player widget is destroyed too; it is outside the model.)
\<close>

definition cleanupPlayer :: "player_state \<Rightarrow> player_state" where
  "cleanupPlayer s =
     s\<lparr> timers := [],
        engine := engine s @ (if hlsRef s then [StopLoad', DetachMedia, Destroy] else []),
        hlsRef := False \<rparr>"

text \<open>
  \<open>initPlayer\<close> (lines 569-857), run by the effect when \<open>retryCount\<close>,
  \<open>useDirectPlay\<close> or the URL changed. The result of the reachability probe and whether
  the dynamic imports succeed are inputs. The function is modelled without interleaving:
  \<open>isMountedRef\<close> is read from the state the function started in. Creating the player
  (lines 660-760) is modelled by what reaches the engine: the widget calls the
  \<open>m3u8\<close> callback, which creates the engine, loads the source and attaches the media.
  The old player is cleaned up first (line 619); an exception of \<open>getProxiedUrl\<close>
  (line 662) is caught like one of the imports (lines 853-856), and no engine is created.
\<close>

definition initPlayer :: "jsstring \<Rightarrow> cors_result \<Rightarrow> bool \<Rightarrow> player_state \<Rightarrow> player_state" where
  "initPlayer videoUrl corsResult importsOk s0 =
     (let direct = useDirectPlay s0;
          s = s0\<lparr> playMode := (if direct then Direct else Proxy) \<rparr> in
      if direct \<and> \<not> isMounted s then s
      else if direct \<and> \<not> success' corsResult \<and> reason corsResult = Some Cors then
        s\<lparr> useDirectPlay := False, playMode := Proxy, retryCount := retryCount s + 1 \<rparr>
      else if \<not> importsOk then setPlayerError EUnknown MsgInitFailed True s
      else if \<not> isMounted s then s
      else (let s1 = cleanupPlayer s in
            case getProxiedUrl direct videoUrl of
              Inl thrown \<Rightarrow> setPlayerError EUnknown MsgInitFailed True s1
            | Inr source \<Rightarrow>
                s1\<lparr> hlsRef := True, engine := engine s1 @ [LoadSource source, AttachMedia] \<rparr>))"

text \<open>
  The effect (lines 563-873): it marks the component mounted and runs \<open>initPlayer\<close>;
  its cleanup marks it unmounted and cleans the player up.
\<close>

definition runEffect :: "jsstring \<Rightarrow> cors_result \<Rightarrow> bool \<Rightarrow> player_state \<Rightarrow> player_state" where
  "runEffect videoUrl corsResult importsOk s =
     (if videoUrl = [] then s
      else initPlayer videoUrl corsResult importsOk (s\<lparr> isMounted := True \<rparr>))"

definition effectCleanup :: "player_state \<Rightarrow> player_state" where
  "effectCleanup s = cleanupPlayer (s\<lparr> isMounted := False \<rparr>)"

text \<open>A timer of \<open>timersRef\<close> fires (lines 960-965 and 976-981).\<close>

definition timerFires :: "nat \<Rightarrow> player_state \<Rightarrow> player_state" where
  "timerFires i s =
     (if i < length (timers s) then
        (let tm = timers s ! i;
             s1 = (if isMounted s \<and> hlsRef s then
                     s\<lparr> engine := engine s @
                         [case action tm of StartLoad \<Rightarrow> StartLoadCommand
                          | RecoverMediaError \<Rightarrow> RecoverMediaErrorCommand] \<rparr>
                   else s)
         in s1\<lparr> timers := take i (timers s) @ drop (Suc i) (timers s) \<rparr>)
      else s)"

text \<open>
  The events of one playback session, and the component's reaction to each.
\<close>

datatype event =
    HlsError hls_error_data bool
  | RetryClicked
  | EffectRuns jsstring cors_result bool
  | EffectCleanedUp
  | TimerFired nat

fun react :: "player_state \<Rightarrow> event \<Rightarrow> player_state" where
  "react s (HlsError data useDirect) = onHlsError data useDirect s"
| "react s RetryClicked = handleRetry s"
| "react s (EffectRuns videoUrl corsResult importsOk) = runEffect videoUrl corsResult importsOk s"
| "react s EffectCleanedUp = effectCleanup s"
| "react s (TimerFired i) = timerFires i s"

text \<open>The component as it is first rendered (lines 444-474).\<close>

definition initial_counters :: retry_counters where
  "initial_counters = \<lparr> networkRetryCount = 0, mediaRetryCount = 0, keyErrorCount = 0 \<rparr>"

definition initial_state :: player_state where
  "initial_state =
     \<lparr> isLoading = True, error = None, retryCount = 0, useDirectPlay = True,
       playMode = Detecting, isMounted = True, counters = initial_counters, timers = [],
       hlsRef = False, engine = [], onErrorCalls = 0 \<rparr>"

text \<open>
  The conditions of the handler's branches, named: a key-load failure or timeout (line 891),
  a fragment-load error with a 404 response (line 938), an event on which the handler
  increments one of its counters (lines 892, 951, 971), and the condition of line 910 under
  which a manifest-load error switches the transport.
\<close>

definition is_key_event :: "hls_error_data \<Rightarrow> bool" where
  "is_key_event d \<longleftrightarrow> details d = ''keyLoadError'' \<or> details d = ''keyLoadTimeOut''"

definition is_fragment_404 :: "hls_error_data \<Rightarrow> bool" where
  "is_fragment_404 d \<longleftrightarrow> details d = ''fragLoadError'' \<and> response_code d = Some 404"

definition counted_event :: "hls_error_data \<Rightarrow> bool" where
  "counted_event d \<longleftrightarrow>
     is_key_event d \<or>
     (details d \<noteq> ''manifestLoadError'' \<and> \<not> is_fragment_404 d \<and> fatal d \<and> type' d \<noteq> OTHER_ERROR)"

definition switches_transport :: "hls_error_data \<Rightarrow> bool \<Rightarrow> bool" where
  "switches_transport d u \<longleftrightarrow>
     details d = ''manifestLoadError'' \<and> u \<and> \<not> truthy_code (response_code d)"

text \<open>
  The category the specification's classifier attaches to an event, read off the first
  argument of \<open>setPlayerError\<close> in each branch of the handler.
\<close>

definition spec_category :: "hls_error_data \<Rightarrow> error_type" where
  "spec_category d =
     (if is_key_event d then EKey
      else if details d = ''manifestLoadError'' then EManifest
      else if is_fragment_404 d then EFragment
      else (case type' d of NETWORK_ERROR \<Rightarrow> ENetwork | MEDIA_ERROR \<Rightarrow> EMedia
            | OTHER_ERROR \<Rightarrow> EUnknown))"

text \<open>The test \<open>url.startsWith("/api/video-proxy/")\<close> of \<open>getProxiedUrl\<close>.\<close>

definition has_proxy_prefix :: "jsstring \<Rightarrow> bool" where
  "has_proxy_prefix url \<longleftrightarrow> take (length (js ''/api/video-proxy/'')) url = js ''/api/video-proxy/''"

text \<open>
  Events and inputs used as examples: a manifest request blocked by CORS (the response has
  the status 0), a fatal network error, a fragment 404 that is not fatal, a buffer stall
  that is not fatal, a key-load error that is not fatal, a probe that fails for CORS, a URL.
\<close>

definition cors_blocked_manifest :: hls_error_data where
  "cors_blocked_manifest =
     \<lparr> details = ''manifestLoadError'', response = Some \<lparr> code = Some 0 \<rparr>, fatal = True,
       type' = NETWORK_ERROR \<rparr>"

definition fatal_network_error :: hls_error_data where
  "fatal_network_error =
     \<lparr> details = ''levelLoadError'', response = None, fatal = True, type' = NETWORK_ERROR \<rparr>"

definition nonfatal_fragment_404 :: hls_error_data where
  "nonfatal_fragment_404 =
     \<lparr> details = ''fragLoadError'', response = Some \<lparr> code = Some 404 \<rparr>, fatal = False,
       type' = NETWORK_ERROR \<rparr>"

definition nonfatal_buffer_stall :: hls_error_data where
  "nonfatal_buffer_stall =
     \<lparr> details = ''bufferStalledError'', response = None, fatal = False, type' = MEDIA_ERROR \<rparr>"

definition nonfatal_key_error :: hls_error_data where
  "nonfatal_key_error =
     \<lparr> details = ''keyLoadError'', response = None, fatal = False, type' = NETWORK_ERROR \<rparr>"

definition cors_probe_failure :: cors_result where
  "cors_probe_failure = \<lparr> success' = False, reason = Some Cors, code' = None \<rparr>"

definition example_url :: jsstring where
  "example_url = js ''https://a.example/v.m3u8''"

text \<open>A request that did not yield a parsed body: an I/O failure.\<close>

definition failed :: "'a fetched \<Rightarrow> bool" where
  "failed x = (case x of Body _ \<Rightarrow> False | _ \<Rightarrow> True)"

text \<open>The test of line 310: the title is empty, or only white space.\<close>

definition blank :: "jsstring \<Rightarrow> bool" where
  "blank s \<longleftrightarrow> s = [] \<or> trim s = []"

text \<open>
  The number of the episode token of a title: \<open>parseInt\<close> of the group of
  \<open>episodeMatch\<close> (line 363), \<open>None\<close> when the title has no token. Two parsed
  numbers are the same number when \<open>===\<close> holds of their doubles.
\<close>

definition episode_token :: "jsstring \<Rightarrow> int option" where
  "episode_token title = (case episodeMatch title of None \<Rightarrow> None | Some g \<Rightarrow> parseInt_arg g)"

definition same_number :: "(int \<Rightarrow> jsnum) \<Rightarrow> int option \<Rightarrow> int option \<Rightarrow> bool" where
  "same_number toDouble a b = strict_equal (numberOf toDouble a) (numberOf toDouble b)"

text \<open>
  The rounding on the integers up to \<open>2 ^ 53\<close> in magnitude, where it changes
  nothing: the \<open>toDouble\<close> of the examples.
\<close>

definition exact_double :: "int \<Rightarrow> jsnum" where
  "exact_double n = Finite (of_int n)"

text \<open>
  Remote services used as examples: one that cannot be reached, and one that fails the
  match request, answers the search for \<open>Ab\<close> with one series, gives the detail passed
  in for it, and has one comment for the episode 107.
\<close>

definition unreachable_catalog :: catalog where
  "unreachable_catalog =
     \<lparr> fetch_search = (\<lambda>_. NetworkFailure), fetch_bangumi = (\<lambda>_. NetworkFailure),
       fetch_comment = (\<lambda>_. NetworkFailure), fetch_match = (\<lambda>_. NetworkFailure) \<rparr>"

definition episode_one :: episode where
  "episode_one =
     \<lparr> seasonId = js ''1'', episodeId = 101, episodeTitle = js ''One'', episodeNumber = js ''1'',
       airDate = [] \<rparr>"

definition episode_seven :: episode where
  "episode_seven =
     \<lparr> seasonId = js ''1'', episodeId = 107, episodeTitle = js ''Seven'', episodeNumber = js ''7'',
       airDate = [] \<rparr>"

definition example_episodes :: "episode list" where
  "example_episodes = [episode_one, episode_seven]"

definition example_comment :: raw_comment where
  "example_comment = \<lparr> cid = 1, p = js ''1.5,5,255'', m = js ''hi'', t = Finite 1 \<rparr>"

definition example_catalog :: "bangumi \<Rightarrow> catalog" where
  "example_catalog detail =
     \<lparr> fetch_search = (\<lambda>k. if k = js ''Ab'' then
          Body \<lparr> search_success = True,
                 animes = Some [\<lparr> animeId = 5, bangumiId = js ''5'', animeTitle = js ''Ab'',
                                   episodeCount = 2 \<rparr>] \<rparr>
          else NetworkFailure),
       fetch_bangumi = (\<lambda>i. if i = 5 then Body \<lparr> bangumi_success = True, bangumi = Some detail \<rparr>
          else HttpStatus 404),
       fetch_comment = (\<lambda>i. if i = 107 then Body \<lparr> comments = Some [example_comment] \<rparr>
          else HttpStatus 404),
       fetch_match = (\<lambda>_. NetworkFailure) \<rparr>"

section \<open>Properties of the comment normalizer\<close>

declare hexDigits.simps [simp del]

lemma split_comma_nonempty: "split_comma s \<noteq> []"
  by (induction s) (auto split: list.splits)




lemmas js_eval =
  js_def isWhiteSpace_def isDigit_def isHexDigit_def digitValue_def radixValue_def digitsValue_def
  parseMagnitude_def parseSigned_def parseInt_def toStringArg_def parseInt_arg_def at_index_def
  or_default_def or_num_def truthy_num_def hexChar_def hexUpper_def toString16_def padStart0_def
  toUpperCase_def non_numeric_def

lemma hexDigits_16777215: "hexDigits 16777215 = js ''ffffff''"
  by (simp add: hexDigits.simps[of 16777215] hexDigits.simps[of 1048575] hexDigits.simps[of 65535]
      hexDigits.simps[of 4095] hexDigits.simps[of 255] hexDigits.simps[of 15] js_eval)

lemma default_color: "js ''#'' @ toUpperCase (padStart0 6 (toString16 16777215)) = js ''#FFFFFF''"
  by (simp add: toString16_def hexDigits_16777215) (simp add: js_eval)













text \<open>
  C10. A packed field that parses to zero is treated like one that does not parse, since
  the defaults are applied with \<open>||\<close>: a time of 0 gives the record's \<open>t\<close>, a mode of
  0 gives scroll, a colour of 0 gives \<open>#FFFFFF\<close> (16777215), not black.
\<close>

theorem convertToDanmakuItem_zero_fields:
  "(let parts = split_comma (p c); item = convertToDanmakuItem pf c in
      (pf (toStringArg (at_index parts 0)) = Finite 0 \<longrightarrow> time item = t c) \<and>
      (parseInt_arg (at_index parts 1) = Some 0 \<longrightarrow> mode item = 0) \<and>
      (parseInt_arg (at_index parts 2) = Some 0 \<longrightarrow> color item = js ''#FFFFFF''))"
  by (simp add: convertToDanmakuItem_def Let_def or_num_def truthy_num_def or_default_def
      default_color)

theorem convertToDanmakuItem_zero_fields_witness:
  "(let c = \<lparr> cid = 7, p = js ''0.00,0,0,[src]'', m = js ''hello'', t = Finite 12 \<rparr>;
        parts = split_comma (p c); item = convertToDanmakuItem (\<lambda>_. Finite 0) c in
      (\<lambda>_. Finite 0) (toStringArg (at_index parts 0)) = Finite 0 \<and>
      parseInt_arg (at_index parts 1) = Some 0 \<and>
      parseInt_arg (at_index parts 2) = Some 0 \<and>
      time item = Finite 12 \<and> mode item = 0 \<and> color item = js ''#FFFFFF'')"
proof -
  define c where "c = \<lparr> cid = 7, p = js ''0.00,0,0,[src]'', m = js ''hello'', t = Finite 12 \<rparr>"
  have h1: "parseInt_arg (at_index (split_comma (p c)) 1) = Some 0"
    unfolding c_def by (simp add: js_eval)
  have h2: "parseInt_arg (at_index (split_comma (p c)) 2) = Some 0"
    unfolding c_def by (simp add: js_eval)
  have tc: "t c = Finite 12"
    by (simp add: c_def)
  show ?thesis
    unfolding Let_def c_def[symmetric]
    using convertToDanmakuItem_zero_fields[of c "\<lambda>_. Finite 0"] h1 h2 tc
    by (simp add: Let_def)
qed




section \<open>Properties of the playback supervisor\<close>

lemma truthy_code_404: "\<not> truthy_code c \<Longrightarrow> c \<noteq> Some 404 \<and> c \<noteq> Some 403"
  by (auto simp: truthy_code_def)

lemma handleHlsError_manifest:
  assumes "details d = ''manifestLoadError''"
  shows "handleHlsError d u r =
     (if u \<and> \<not> truthy_code (response_code d) then
        ([SetUseDirectPlay False, SetPlayMode Proxy, SetRetryCountIncrement], r)
      else if response_code d = Some 404 then ([SetPlayerError EManifest MsgManifestNotFound False], r)
      else if response_code d = Some 403 then ([SetPlayerError EManifest MsgManifestExpired False], r)
      else (case response_code d of
              Some n \<Rightarrow> if n \<noteq> 0 then ([SetPlayerError EManifest (MsgManifestHttp n) True], r)
                        else ([SetPlayerError EManifest MsgManifestCheckNetwork True], r)
            | None \<Rightarrow> ([SetPlayerError EManifest MsgManifestCheckNetwork True], r)))"
  using assms truthy_code_404[of "response_code d"]
  by (auto simp: handleHlsError_def Let_def)

lemma handleHlsError_key:
  assumes "is_key_event d"
  shows "handleHlsError d u r =
     (if keyErrorCount r + 1 > MAX_KEY_ERROR then
        ([SetPlayerError EKey (if response_code d = Some 404 then MsgKeyNotFound else MsgKeyLoadFailed) False,
          HlsStopLoad], r\<lparr>keyErrorCount := keyErrorCount r + 1\<rparr>)
      else ([], r\<lparr>keyErrorCount := keyErrorCount r + 1\<rparr>))"
  using assms by (auto simp: handleHlsError_def Let_def is_key_event_def)

lemma handleHlsError_fragment:
  assumes "\<not> is_key_event d" and "is_fragment_404 d"
  shows "handleHlsError d u r = ([SetPlayerError EFragment MsgFragmentNotFound False], r)"
  using assms by (auto simp: handleHlsError_def Let_def is_key_event_def is_fragment_404_def)

lemma handleHlsError_other:
  assumes "\<not> is_key_event d" and "details d \<noteq> ''manifestLoadError''" and "\<not> is_fragment_404 d"
  shows "handleHlsError d u r =
     (if fatal d then
        (case type' d of
           NETWORK_ERROR \<Rightarrow>
             (if networkRetryCount r + 1 > MAX_NETWORK_RETRY then
                ([SetPlayerError ENetwork
                    (if response_code d = Some 404 then MsgNetworkNotFound else MsgNetworkFailed) True,
                  HlsStopLoad], r\<lparr>networkRetryCount := networkRetryCount r + 1\<rparr>)
              else ([SetTimeout (1000 * (networkRetryCount r + 1)) StartLoad],
                    r\<lparr>networkRetryCount := networkRetryCount r + 1\<rparr>))
         | MEDIA_ERROR \<Rightarrow>
             (if mediaRetryCount r + 1 > MAX_MEDIA_RETRY then
                ([SetPlayerError EMedia MsgMediaUnsupported False, HlsStopLoad],
                 r\<lparr>mediaRetryCount := mediaRetryCount r + 1\<rparr>)
              else ([SetTimeout 500 RecoverMediaError], r\<lparr>mediaRetryCount := mediaRetryCount r + 1\<rparr>))
         | OTHER_ERROR \<Rightarrow>
             ([SetPlayerError EUnknown
                 (MsgLoadFailed (if details d = [] then None else Some (details d))) True], r))
      else ([], r))"
  using assms
  by (auto simp: handleHlsError_def Let_def is_key_event_def is_fragment_404_def split: hls_error_type.splits)

lemma counters_same: "s\<lparr> counters := counters s \<rparr> = s"
  by simp

text \<open>
  C9, as amended. An event that is not fatal and is neither a key-load event, a
  manifest-load error nor a fragment 404 makes the handler do nothing: no call, no counter
  changed, the component's state as it was. A key-load event increments
  \<open>keyErrorCount\<close> whatever its fatal flag; key-load events, manifest-load errors and
  fragment 404s are handled the same whatever their fatal flag.
\<close>

theorem nonfatal_events_ignored:
  "(\<not> fatal d \<and> \<not> is_key_event d \<and> details d \<noteq> ''manifestLoadError'' \<and> \<not> is_fragment_404 d \<longrightarrow>
      handleHlsError d u r = ([], r) \<and> onHlsError d u s = s) \<and>
   (is_key_event d \<longrightarrow>
      keyErrorCount (snd (handleHlsError d u r)) = keyErrorCount r + 1) \<and>
   (is_key_event d \<or> details d = ''manifestLoadError'' \<or> is_fragment_404 d \<longrightarrow>
      handleHlsError (d\<lparr>fatal := b\<rparr>) u r = handleHlsError d u r)"
proof -
  have a: "\<not> fatal d \<and> \<not> is_key_event d \<and> details d \<noteq> ''manifestLoadError'' \<and> \<not> is_fragment_404 d \<Longrightarrow>
      handleHlsError d u r = ([], r) \<and> onHlsError d u s = s"
    by (simp add: handleHlsError_other onHlsError_def)
  have b: "is_key_event d \<Longrightarrow> keyErrorCount (snd (handleHlsError d u r)) = keyErrorCount r + 1"
    by (simp add: handleHlsError_key)
  have c: "is_key_event d \<or> details d = ''manifestLoadError'' \<or> is_fragment_404 d \<Longrightarrow>
      handleHlsError (d\<lparr>fatal := b\<rparr>) u r = handleHlsError d u r"
  proof -
    assume h: "is_key_event d \<or> details d = ''manifestLoadError'' \<or> is_fragment_404 d"
    let ?d = "d\<lparr>fatal := b\<rparr>"
    have e: "is_key_event ?d = is_key_event d" "details ?d = details d"
      "is_fragment_404 ?d = is_fragment_404 d" "response_code ?d = response_code d"
      by (simp_all add: is_key_event_def is_fragment_404_def response_code_def)
    show ?thesis
    proof (cases "is_key_event d")
      case True
      then show ?thesis by (simp add: handleHlsError_key e)
    next
      case nk: False
      show ?thesis
      proof (cases "details d = ''manifestLoadError''")
        case True
        then show ?thesis by (simp add: handleHlsError_manifest e)
      next
        case False
        with h nk have "is_fragment_404 d" by simp
        with nk show ?thesis by (simp add: handleHlsError_fragment e)
      qed
    qed
  qed
  show ?thesis using a b c by blast
qed

text \<open>
  C1. On a manifest-load error: when the captured transport is direct and the response
  carries no HTTP status (the code is absent, or 0 as for a request the browser blocked;
  so it is neither 404 nor 403), the handler switches to the proxy and increments
  \<open>retryCount\<close>, and sets no error. Otherwise it sets a manifest error: not retryable
  for 404 and for 403 under either transport, retryable for every other status, and
  retryable for no status under the proxy.
\<close>

theorem manifest_error_handling:
  assumes "details d = ''manifestLoadError''"
  shows "(u \<and> \<not> truthy_code (response_code d) \<longrightarrow>
            response_code d \<noteq> Some 404 \<and> response_code d \<noteq> Some 403 \<and>
            handleHlsError d u r = ([SetUseDirectPlay False, SetPlayMode Proxy, SetRetryCountIncrement], r) \<and>
            onHlsError d u s = s\<lparr> useDirectPlay := False, playMode := Proxy, retryCount := retryCount s + 1 \<rparr> \<and>
            error (onHlsError d u s) = error s \<and> onErrorCalls (onHlsError d u s) = onErrorCalls s) \<and>
         (response_code d = Some 404 \<longrightarrow>
            handleHlsError d u r = ([SetPlayerError EManifest MsgManifestNotFound False], r) \<and>
            (isMounted s \<longrightarrow> error (onHlsError d u s) =
               Some \<lparr> type = EManifest, message = MsgManifestNotFound, canRetry = False \<rparr>)) \<and>
         (response_code d = Some 403 \<longrightarrow>
            handleHlsError d u r = ([SetPlayerError EManifest MsgManifestExpired False], r) \<and>
            (isMounted s \<longrightarrow> error (onHlsError d u s) =
               Some \<lparr> type = EManifest, message = MsgManifestExpired, canRetry = False \<rparr>)) \<and>
         (\<forall>n. response_code d = Some n \<and> n \<noteq> 0 \<and> n \<noteq> 404 \<and> n \<noteq> 403 \<longrightarrow>
            handleHlsError d u r = ([SetPlayerError EManifest (MsgManifestHttp n) True], r) \<and>
            (isMounted s \<longrightarrow> error (onHlsError d u s) =
               Some \<lparr> type = EManifest, message = MsgManifestHttp n, canRetry = True \<rparr>)) \<and>
         (\<not> u \<and> \<not> truthy_code (response_code d) \<longrightarrow>
            handleHlsError d u r = ([SetPlayerError EManifest MsgManifestCheckNetwork True], r) \<and>
            (isMounted s \<longrightarrow> error (onHlsError d u s) =
               Some \<lparr> type = EManifest, message = MsgManifestCheckNetwork, canRetry = True \<rparr>))"
proof -
  note h = handleHlsError_manifest[OF assms]
  have a: "u \<and> \<not> truthy_code (response_code d) \<Longrightarrow>
      response_code d \<noteq> Some 404 \<and> response_code d \<noteq> Some 403 \<and>
      handleHlsError d u r = ([SetUseDirectPlay False, SetPlayMode Proxy, SetRetryCountIncrement], r) \<and>
      onHlsError d u s = s\<lparr> useDirectPlay := False, playMode := Proxy, retryCount := retryCount s + 1 \<rparr> \<and>
      error (onHlsError d u s) = error s \<and> onErrorCalls (onHlsError d u s) = onErrorCalls s"
    using truthy_code_404[of "response_code d"] by (simp add: onHlsError_def h)
  have b: "response_code d = Some 404 \<Longrightarrow>
      handleHlsError d u r = ([SetPlayerError EManifest MsgManifestNotFound False], r) \<and>
      (isMounted s \<longrightarrow> error (onHlsError d u s) =
               Some \<lparr> type = EManifest, message = MsgManifestNotFound, canRetry = False \<rparr>)"
    by (simp add: onHlsError_def h truthy_code_def setPlayerError_def)
  have c: "response_code d = Some 403 \<Longrightarrow>
      handleHlsError d u r = ([SetPlayerError EManifest MsgManifestExpired False], r) \<and>
      (isMounted s \<longrightarrow> error (onHlsError d u s) =
               Some \<lparr> type = EManifest, message = MsgManifestExpired, canRetry = False \<rparr>)"
    by (simp add: onHlsError_def h truthy_code_def setPlayerError_def)
  have e: "\<And>n. response_code d = Some n \<and> n \<noteq> 0 \<and> n \<noteq> 404 \<and> n \<noteq> 403 \<Longrightarrow>
      handleHlsError d u r = ([SetPlayerError EManifest (MsgManifestHttp n) True], r) \<and>
      (isMounted s \<longrightarrow> error (onHlsError d u s) =
               Some \<lparr> type = EManifest, message = MsgManifestHttp n, canRetry = True \<rparr>)"
    by (simp add: onHlsError_def h truthy_code_def setPlayerError_def)
  have f: "\<not> u \<and> \<not> truthy_code (response_code d) \<Longrightarrow>
      handleHlsError d u r = ([SetPlayerError EManifest MsgManifestCheckNetwork True], r) \<and>
      (isMounted s \<longrightarrow> error (onHlsError d u s) =
               Some \<lparr> type = EManifest, message = MsgManifestCheckNetwork, canRetry = True \<rparr>)"
    using truthy_code_404[of "response_code d"]
    by (auto simp: onHlsError_def h truthy_code_def setPlayerError_def split: option.splits)
  show ?thesis
    using a b c e f by blast
qed

theorem manifest_error_handling_witness:
  "details cors_blocked_manifest = ''manifestLoadError'' \<and>
   \<not> truthy_code (response_code cors_blocked_manifest) \<and>
   handleHlsError cors_blocked_manifest True initial_counters =
     ([SetUseDirectPlay False, SetPlayMode Proxy, SetRetryCountIncrement], initial_counters) \<and>
   error (onHlsError cors_blocked_manifest True initial_state) = None \<and>
   handleHlsError cors_blocked_manifest False initial_counters =
     ([SetPlayerError EManifest MsgManifestCheckNetwork True], initial_counters) \<and>
   isMounted initial_state \<and>
   error (onHlsError cors_blocked_manifest False initial_state) =
     Some \<lparr> type = EManifest, message = MsgManifestCheckNetwork, canRetry = True \<rparr>"
proof -
  have d: "details cors_blocked_manifest = ''manifestLoadError''"
    by (simp add: cors_blocked_manifest_def)
  have n: "\<not> truthy_code (response_code cors_blocked_manifest)"
    by (simp add: cors_blocked_manifest_def response_code_def truthy_code_def)
  have i: "isMounted initial_state" "error initial_state = None"
    by (simp_all add: initial_state_def)
  show ?thesis
    using manifest_error_handling[OF d, of True initial_counters initial_state]
      manifest_error_handling[OF d, of False initial_counters initial_state] d n i
    by simp
qed

lemmas event_eval =
  cors_blocked_manifest_def fatal_network_error_def nonfatal_fragment_404_def
  nonfatal_buffer_stall_def nonfatal_key_error_def initial_counters_def initial_state_def
  is_key_event_def is_fragment_404_def counted_event_def switches_transport_def
  response_code_def truthy_code_def MAX_NETWORK_RETRY_def MAX_MEDIA_RETRY_def MAX_KEY_ERROR_def

theorem nonfatal_events_ignored_witness:
  "\<not> fatal nonfatal_buffer_stall \<and> \<not> is_key_event nonfatal_buffer_stall \<and>
   details nonfatal_buffer_stall \<noteq> ''manifestLoadError'' \<and> \<not> is_fragment_404 nonfatal_buffer_stall \<and>
   handleHlsError nonfatal_buffer_stall True initial_counters = ([], initial_counters) \<and>
   onHlsError nonfatal_buffer_stall True initial_state = initial_state \<and>
   is_key_event nonfatal_key_error \<and> \<not> fatal nonfatal_key_error \<and>
   keyErrorCount (snd (handleHlsError nonfatal_key_error True initial_counters)) =
     keyErrorCount initial_counters + 1 \<and>
   handleHlsError (nonfatal_key_error\<lparr>fatal := True\<rparr>) True initial_counters =
     handleHlsError nonfatal_key_error True initial_counters"
proof -
  have h: "\<not> fatal nonfatal_buffer_stall" "\<not> is_key_event nonfatal_buffer_stall"
    "details nonfatal_buffer_stall \<noteq> ''manifestLoadError''" "\<not> is_fragment_404 nonfatal_buffer_stall"
    "is_key_event nonfatal_key_error" "\<not> fatal nonfatal_key_error"
    by (simp_all add: event_eval)
  show ?thesis
    using nonfatal_events_ignored[of nonfatal_buffer_stall True initial_counters initial_state]
      nonfatal_events_ignored[of nonfatal_key_error True initial_counters initial_state True] h
    by simp
qed

text \<open>
  C9 as stated fails: a fragment 404 that is not fatal sets an error that cannot be
  retried, and so changes the state.
\<close>

theorem nonfatal_fragment_404_displayed:
  "\<not> fatal nonfatal_fragment_404 \<and>
   handleHlsError nonfatal_fragment_404 True initial_counters =
     ([SetPlayerError EFragment MsgFragmentNotFound False], initial_counters) \<and>
   error initial_state = None \<and>
   error (onHlsError nonfatal_fragment_404 True initial_state) =
     Some \<lparr> type = EFragment, message = MsgFragmentNotFound, canRetry = False \<rparr> \<and>
   onHlsError nonfatal_fragment_404 True initial_state \<noteq> initial_state"
proof -
  have k: "\<not> is_key_event nonfatal_fragment_404" "is_fragment_404 nonfatal_fragment_404"
    "\<not> fatal nonfatal_fragment_404"
    by (simp_all add: event_eval)
  have c: "handleHlsError nonfatal_fragment_404 True initial_counters =
     ([SetPlayerError EFragment MsgFragmentNotFound False], initial_counters)"
    by (rule handleHlsError_fragment[OF k(1,2)])
  have i: "error initial_state = None" "counters initial_state = initial_counters" "isMounted initial_state"
    by (simp_all add: initial_state_def)
  have e: "error (onHlsError nonfatal_fragment_404 True initial_state) =
     Some \<lparr> type = EFragment, message = MsgFragmentNotFound, canRetry = False \<rparr>"
    by (simp add: onHlsError_def c i setPlayerError_def)
  have "error (onHlsError nonfatal_fragment_404 True initial_state) \<noteq> error initial_state"
    by (simp add: e i)
  then have n: "onHlsError nonfatal_fragment_404 True initial_state \<noteq> initial_state"
    by metis
  show ?thesis using k c i e n by simp
qed

text \<open>
  C6, as amended. The handler keeps the retry counters itself. The category of an error it
  sets depends on the event alone. On an event it does not count it leaves the counters as
  they were, and a second invocation returns what the first did; on an event it counts
  (a key-load event, a fatal network or media error) it increments one counter by one.
\<close>

theorem handler_idempotent_unless_counting:
  "(\<forall>c \<in> set (fst (handleHlsError d u r)).
      \<forall>ty msg b. c = SetPlayerError ty msg b \<longrightarrow> ty = spec_category d) \<and>
   (\<not> counted_event d \<longrightarrow>
      snd (handleHlsError d u r) = r \<and>
      handleHlsError d u (snd (handleHlsError d u r)) = handleHlsError d u r) \<and>
   (counted_event d \<longrightarrow>
      (let r' = snd (handleHlsError d u r) in
       keyErrorCount r' + networkRetryCount r' + mediaRetryCount r' =
       keyErrorCount r + networkRetryCount r + mediaRetryCount r + 1))"
proof (cases "is_key_event d")
  case True
  then show ?thesis
    by (simp add: handleHlsError_key spec_category_def counted_event_def Let_def)
next
  case nk: False
  show ?thesis
  proof (cases "details d = ''manifestLoadError''")
    case True
    with nk show ?thesis
      by (simp add: handleHlsError_manifest spec_category_def counted_event_def split: option.splits)
  next
    case nm: False
    show ?thesis
    proof (cases "is_fragment_404 d")
      case True
      with nk nm show ?thesis
        by (simp add: handleHlsError_fragment spec_category_def counted_event_def)
    next
      case False
      with nk nm show ?thesis
        by (cases "type' d")
          (simp_all add: handleHlsError_other spec_category_def counted_event_def Let_def)
    qed
  qed
qed

theorem handler_idempotent_unless_counting_witness:
  "\<not> counted_event cors_blocked_manifest \<and>
   snd (handleHlsError cors_blocked_manifest False initial_counters) = initial_counters \<and>
   handleHlsError cors_blocked_manifest False
      (snd (handleHlsError cors_blocked_manifest False initial_counters)) =
     handleHlsError cors_blocked_manifest False initial_counters \<and>
   fst (handleHlsError cors_blocked_manifest False initial_counters) =
     [SetPlayerError EManifest MsgManifestCheckNetwork True] \<and>
   spec_category cors_blocked_manifest = EManifest \<and>
   counted_event fatal_network_error \<and>
   networkRetryCount (snd (handleHlsError fatal_network_error True initial_counters)) = 1"
proof -
  have h: "\<not> counted_event cors_blocked_manifest" "counted_event fatal_network_error"
    by (simp_all add: event_eval)
  have c: "fst (handleHlsError cors_blocked_manifest False initial_counters) =
     [SetPlayerError EManifest MsgManifestCheckNetwork True]"
    by (simp add: handleHlsError_def event_eval)
  have n: "keyErrorCount (snd (handleHlsError fatal_network_error True initial_counters)) = 0"
    "mediaRetryCount (snd (handleHlsError fatal_network_error True initial_counters)) = 0"
    by (simp_all add: handleHlsError_def event_eval)
  note m = handler_idempotent_unless_counting[of cors_blocked_manifest False initial_counters]
  note f = handler_idempotent_unless_counting[of fatal_network_error True initial_counters]
  have cat: "spec_category cors_blocked_manifest = EManifest"
    using m c by auto
  have idem: "snd (handleHlsError cors_blocked_manifest False initial_counters) = initial_counters \<and>
     handleHlsError cors_blocked_manifest False
        (snd (handleHlsError cors_blocked_manifest False initial_counters)) =
       handleHlsError cors_blocked_manifest False initial_counters"
    using m h(1) by blast
  have cnt: "networkRetryCount (snd (handleHlsError fatal_network_error True initial_counters)) = 1"
    using f h(2) n by (simp add: Let_def initial_counters_def)
  show ?thesis
    using h c cat idem cnt by simp
qed

text \<open>
  C6 as stated fails: after two fatal network errors, the same event schedules a retry
  the first time and sets an error the second time, and the first invocation has changed
  the counter.
\<close>

theorem handler_not_idempotent:
  "fst (handleHlsError fatal_network_error True
          \<lparr> networkRetryCount = 2, mediaRetryCount = 0, keyErrorCount = 0 \<rparr>) =
     [SetTimeout 3000 StartLoad] \<and>
   snd (handleHlsError fatal_network_error True
          \<lparr> networkRetryCount = 2, mediaRetryCount = 0, keyErrorCount = 0 \<rparr>) =
     \<lparr> networkRetryCount = 3, mediaRetryCount = 0, keyErrorCount = 0 \<rparr> \<and>
   fst (handleHlsError fatal_network_error True
          \<lparr> networkRetryCount = 3, mediaRetryCount = 0, keyErrorCount = 0 \<rparr>) =
     [SetPlayerError ENetwork MsgNetworkFailed True, HlsStopLoad]"
  by (simp add: handleHlsError_def event_eval)

lemma retryCount_setPlayerError: "retryCount (setPlayerError ty msg b s) = retryCount s"
  by (simp add: setPlayerError_def)

lemma retryCount_onHlsError:
  "retryCount (onHlsError d u s) = (if switches_transport d u then retryCount s + 1 else retryCount s)"
proof (cases "is_key_event d")
  case True
  then have "details d \<noteq> ''manifestLoadError''" by (auto simp: is_key_event_def)
  with True show ?thesis
    by (simp add: onHlsError_def handleHlsError_key switches_transport_def retryCount_setPlayerError)
next
  case nk: False
  show ?thesis
  proof (cases "details d = ''manifestLoadError''")
    case True
    then show ?thesis
      by (simp add: onHlsError_def handleHlsError_manifest switches_transport_def
          retryCount_setPlayerError split: option.splits)
  next
    case nm: False
    show ?thesis
    proof (cases "is_fragment_404 d")
      case True
      with nk nm show ?thesis
        by (simp add: onHlsError_def handleHlsError_fragment switches_transport_def
            retryCount_setPlayerError)
    next
      case False
      with nk nm show ?thesis
        by (cases "type' d")
          (simp_all add: onHlsError_def handleHlsError_other switches_transport_def
            retryCount_setPlayerError)
    qed
  qed
qed

lemma onHlsError_switch:
  assumes "switches_transport d u"
  shows "onHlsError d u s =
     s\<lparr> useDirectPlay := False, playMode := Proxy, retryCount := retryCount s + 1 \<rparr>"
  using assms by (simp add: switches_transport_def onHlsError_def handleHlsError_manifest)

text \<open>
  C7, as amended. When the handler switches the transport, the component goes from direct
  to proxy and \<open>retryCount\<close> is incremented by one; nothing else changes (the error, the
  per-category counters, the timers, the engine). No other branch of the handler changes
  \<open>retryCount\<close>. The probe's CORS fallback in \<open>initPlayer\<close> increments it too, and so
  does \<open>handleRetry\<close>, which also resets the counters and the error. The increment makes
  the effect run again: the engine is stopped, detached and destroyed, and a new one loads
  the source through the proxy (when the URL can be encoded; a URL with a lone surrogate
  makes \<open>encodeURIComponent\<close> throw, and the effect sets an error and loads nothing).
\<close>

theorem transport_switch_increments_retryCount:
  "(switches_transport d u \<longrightarrow>
      onHlsError d u s =
        s\<lparr> useDirectPlay := False, playMode := Proxy, retryCount := retryCount s + 1 \<rparr>) \<and>
   retryCount (onHlsError d u s) =
     (if switches_transport d u then retryCount s + 1 else retryCount s) \<and>
   (useDirectPlay s \<and> isMounted s \<and> \<not> success' cr \<and> reason cr = Some Cors \<longrightarrow>
      initPlayer url cr ok s =
        s\<lparr> useDirectPlay := False, playMode := Proxy, retryCount := retryCount s + 1 \<rparr>) \<and>
   handleRetry s =
     s\<lparr> error := None, isLoading := True, retryCount := retryCount s + 1,
        counters := initial_counters \<rparr> \<and>
   (switches_transport d u \<and> url \<noteq> [] \<and> \<not> has_proxy_prefix url \<and> well_formed_utf16 url \<longrightarrow>
      engine (runEffect url cr True (effectCleanup (onHlsError d u s))) =
        engine s @ (if hlsRef s then [StopLoad', DetachMedia, Destroy] else []) @
        [LoadSource (ViaProxy url), AttachMedia]) \<and>
   (switches_transport d u \<and> url \<noteq> [] \<and> \<not> has_proxy_prefix url \<and> \<not> well_formed_utf16 url \<longrightarrow>
      engine (runEffect url cr True (effectCleanup (onHlsError d u s))) =
        engine s @ (if hlsRef s then [StopLoad', DetachMedia, Destroy] else []) \<and>
      error (runEffect url cr True (effectCleanup (onHlsError d u s))) =
        Some \<lparr> type = EUnknown, message = MsgInitFailed, canRetry = True \<rparr>)"
proof -
  have a: "useDirectPlay s \<and> isMounted s \<and> \<not> success' cr \<and> reason cr = Some Cors \<Longrightarrow>
      initPlayer url cr ok s =
        s\<lparr> useDirectPlay := False, playMode := Proxy, retryCount := retryCount s + 1 \<rparr>"
    by (simp add: initPlayer_def Let_def)
  have b: "handleRetry s =
     s\<lparr> error := None, isLoading := True, retryCount := retryCount s + 1,
        counters := initial_counters \<rparr>"
    by (simp add: handleRetry_def initial_counters_def)
  have c: "switches_transport d u \<and> url \<noteq> [] \<and> \<not> has_proxy_prefix url \<and> well_formed_utf16 url \<Longrightarrow>
      engine (runEffect url cr True (effectCleanup (onHlsError d u s))) =
        engine s @ (if hlsRef s then [StopLoad', DetachMedia, Destroy] else []) @
        [LoadSource (ViaProxy url), AttachMedia]"
    by (simp add: onHlsError_switch runEffect_def effectCleanup_def cleanupPlayer_def
        initPlayer_def Let_def getProxiedUrl_def has_proxy_prefix_def)
  have e: "switches_transport d u \<and> url \<noteq> [] \<and> \<not> has_proxy_prefix url \<and> \<not> well_formed_utf16 url \<Longrightarrow>
      engine (runEffect url cr True (effectCleanup (onHlsError d u s))) =
        engine s @ (if hlsRef s then [StopLoad', DetachMedia, Destroy] else []) \<and>
      error (runEffect url cr True (effectCleanup (onHlsError d u s))) =
        Some \<lparr> type = EUnknown, message = MsgInitFailed, canRetry = True \<rparr>"
    by (simp add: onHlsError_switch runEffect_def effectCleanup_def cleanupPlayer_def
        initPlayer_def Let_def getProxiedUrl_def has_proxy_prefix_def setPlayerError_def)
  show ?thesis
    using onHlsError_switch[of d u s] retryCount_onHlsError[of d u s] a b c e by blast
qed

theorem transport_switch_increments_retryCount_witness:
  "switches_transport cors_blocked_manifest True \<and>
   example_url \<noteq> [] \<and> \<not> has_proxy_prefix example_url \<and> well_formed_utf16 example_url \<and>
   useDirectPlay initial_state \<and> isMounted initial_state \<and>
   \<not> success' cors_probe_failure \<and> reason cors_probe_failure = Some Cors \<and>
   retryCount (onHlsError cors_blocked_manifest True initial_state) = 1 \<and>
   counters (onHlsError cors_blocked_manifest True initial_state) = initial_counters \<and>
   retryCount (initPlayer example_url cors_probe_failure True initial_state) = 1 \<and>
   engine (runEffect example_url cors_probe_failure True
             (effectCleanup (onHlsError cors_blocked_manifest True initial_state))) =
     [LoadSource (ViaProxy example_url), AttachMedia]"
proof -
  have h: "switches_transport cors_blocked_manifest True"
    "useDirectPlay initial_state" "isMounted initial_state"
    "\<not> success' cors_probe_failure" "reason cors_probe_failure = Some Cors"
    by (simp_all add: event_eval cors_probe_failure_def)
  have u: "example_url \<noteq> []" "\<not> has_proxy_prefix example_url" "well_formed_utf16 example_url"
    by (simp_all add: example_url_def has_proxy_prefix_def js_def)
  note w = transport_switch_increments_retryCount[of cors_blocked_manifest True initial_state
      cors_probe_failure example_url True]
  have i: "retryCount initial_state = 0" "counters initial_state = initial_counters"
    "engine initial_state = []" "hlsRef initial_state = False"
    by (simp_all add: initial_state_def)
  have sw: "onHlsError cors_blocked_manifest True initial_state =
      initial_state\<lparr> useDirectPlay := False, playMode := Proxy,
        retryCount := retryCount initial_state + 1 \<rparr>"
    using w h by blast
  have ip: "initPlayer example_url cors_probe_failure True initial_state =
      initial_state\<lparr> useDirectPlay := False, playMode := Proxy,
        retryCount := retryCount initial_state + 1 \<rparr>"
    using w h by blast
  have en: "engine (runEffect example_url cors_probe_failure True
             (effectCleanup (onHlsError cors_blocked_manifest True initial_state))) =
        engine initial_state @ (if hlsRef initial_state then [StopLoad', DetachMedia, Destroy] else []) @
        [LoadSource (ViaProxy example_url), AttachMedia]"
    using w h u by blast
  have r1: "retryCount (onHlsError cors_blocked_manifest True initial_state) = 1"
    by (simp add: sw i)
  have r2: "counters (onHlsError cors_blocked_manifest True initial_state) = initial_counters"
    by (simp add: sw i)
  have r3: "retryCount (initPlayer example_url cors_probe_failure True initial_state) = 1"
    by (simp add: ip i)
  have r4: "engine (runEffect example_url cors_probe_failure True
             (effectCleanup (onHlsError cors_blocked_manifest True initial_state))) =
     [LoadSource (ViaProxy example_url), AttachMedia]"
    by (simp add: en i)
  show ?thesis
    using h u r1 r2 r3 r4 by simp
qed

text \<open>
  C7 as stated fails: the switch increments \<open>retryCount\<close>.
\<close>

theorem transport_switch_changes_retryCount:
  "switches_transport cors_blocked_manifest True \<and>
   retryCount initial_state = 0 \<and>
   retryCount (onHlsError cors_blocked_manifest True initial_state) = 1 \<and>
   retryCount (onHlsError cors_blocked_manifest True initial_state) \<noteq> retryCount initial_state"
  by (simp add: onHlsError_def handleHlsError_def event_eval)

lemma handler_calls_never_direct:
  "c \<in> set (fst (handleHlsError d u r)) \<Longrightarrow>
     c \<noteq> SetUseDirectPlay True \<and> (\<forall>pm. c = SetPlayMode pm \<longrightarrow> pm = Proxy)"
  by (auto simp: handleHlsError_def Let_def split: if_splits option.splits hls_error_type.splits)

lemma perform_keeps_proxied:
  assumes "c \<noteq> SetUseDirectPlay True" and "\<forall>pm. c = SetPlayMode pm \<longrightarrow> pm = Proxy"
  shows "(\<not> useDirectPlay s \<longrightarrow> \<not> useDirectPlay (perform s c)) \<and>
         (\<not> useDirectPlay s \<and> playMode s = Proxy \<longrightarrow> playMode (perform s c) = Proxy)"
  using assms by (cases c) (auto simp: setPlayerError_def)

lemma foldl_perform_keeps_proxied:
  assumes "\<forall>c \<in> set cs. c \<noteq> SetUseDirectPlay True \<and> (\<forall>pm. c = SetPlayMode pm \<longrightarrow> pm = Proxy)"
  shows "(\<not> useDirectPlay s \<longrightarrow> \<not> useDirectPlay (foldl perform s cs)) \<and>
         (\<not> useDirectPlay s \<and> playMode s = Proxy \<longrightarrow> playMode (foldl perform s cs) = Proxy)"
  using assms
proof (induction cs arbitrary: s)
  case Nil
  then show ?case by simp
next
  case (Cons c cs)
  have c: "c \<noteq> SetUseDirectPlay True" "\<forall>pm. c = SetPlayMode pm \<longrightarrow> pm = Proxy"
    using Cons.prems by simp_all
  have rest: "\<forall>c \<in> set cs. c \<noteq> SetUseDirectPlay True \<and> (\<forall>pm. c = SetPlayMode pm \<longrightarrow> pm = Proxy)"
    using Cons.prems by simp
  show ?case
    using perform_keeps_proxied[OF c, of s] Cons.IH[OF rest, of "perform s c"] by simp
qed

lemma react_keeps_proxied:
  "(\<not> useDirectPlay s \<longrightarrow> \<not> useDirectPlay (react s ev)) \<and>
   (\<not> useDirectPlay s \<and> playMode s = Proxy \<longrightarrow> playMode (react s ev) = Proxy)"
proof (cases ev)
  case (HlsError d u)
  obtain cs r where h: "handleHlsError d u (counters s) = (cs, r)"
    by (cases "handleHlsError d u (counters s)")
  have "\<forall>c \<in> set cs. c \<noteq> SetUseDirectPlay True \<and> (\<forall>pm. c = SetPlayMode pm \<longrightarrow> pm = Proxy)"
    using handler_calls_never_direct[of _ d u "counters s"] h by simp
  from foldl_perform_keeps_proxied[OF this, of "s\<lparr>counters := r\<rparr>"] HlsError h
  show ?thesis by (simp add: onHlsError_def)
next
  case RetryClicked
  then show ?thesis by (simp add: handleRetry_def)
next
  case (EffectRuns url cr ok)
  then show ?thesis
    by (simp add: runEffect_def initPlayer_def Let_def setPlayerError_def cleanupPlayer_def
        split: sum.splits)
next
  case EffectCleanedUp
  then show ?thesis by (simp add: effectCleanup_def cleanupPlayer_def)
next
  case (TimerFired i)
  then show ?thesis by (simp add: timerFires_def Let_def)
qed

lemma foldl_react_keeps_proxied:
  "(\<not> useDirectPlay s \<longrightarrow> \<not> useDirectPlay (foldl react s evs)) \<and>
   (\<not> useDirectPlay s \<and> playMode s = Proxy \<longrightarrow> playMode (foldl react s evs) = Proxy)"
proof (induction evs arbitrary: s)
  case Nil
  then show ?case by simp
next
  case (Cons ev evs)
  show ?case
    using react_keeps_proxied[of s ev] Cons.IH[of "react s ev"] by simp
qed

text \<open>
  C8. Once \<open>useDirectPlay\<close> is false it stays false through every sequence of events
  (engine errors with either captured flag, timers, effect runs and cleanups, and even the
  user's retry), and the displayed mode stays \<open>Proxy\<close>. When the probe fails for CORS
  in direct mode the effect leaves the component in proxy mode and has sent nothing to the
  engine: no direct load was attempted.
\<close>

theorem proxied_never_reverts:
  "(\<not> useDirectPlay s \<longrightarrow> \<not> useDirectPlay (foldl react s evs)) \<and>
   (\<not> useDirectPlay s \<and> playMode s = Proxy \<longrightarrow> playMode (foldl react s evs) = Proxy) \<and>
   (useDirectPlay s \<and> url \<noteq> [] \<and> \<not> success' cr \<and> reason cr = Some Cors \<longrightarrow>
      (let s' = runEffect url cr ok s in
       \<not> useDirectPlay s' \<and> playMode s' = Proxy \<and> engine s' = engine s \<and> hlsRef s' = hlsRef s))"
proof -
  have "useDirectPlay s \<and> url \<noteq> [] \<and> \<not> success' cr \<and> reason cr = Some Cors \<Longrightarrow>
      (let s' = runEffect url cr ok s in
       \<not> useDirectPlay s' \<and> playMode s' = Proxy \<and> engine s' = engine s \<and> hlsRef s' = hlsRef s)"
    by (simp add: runEffect_def initPlayer_def Let_def)
  then show ?thesis
    using foldl_react_keeps_proxied[of s evs] by blast
qed

theorem proxied_never_reverts_witness:
  "(let s1 = runEffect example_url cors_probe_failure True initial_state;
        s2 = foldl react s1
               [EffectCleanedUp, EffectRuns example_url cors_probe_failure True,
                HlsError fatal_network_error True, TimerFired 0, RetryClicked,
                HlsError cors_blocked_manifest True] in
    useDirectPlay initial_state \<and> example_url \<noteq> [] \<and>
    \<not> success' cors_probe_failure \<and> reason cors_probe_failure = Some Cors \<and>
    \<not> useDirectPlay s1 \<and> playMode s1 = Proxy \<and> engine s1 = [] \<and>
    \<not> useDirectPlay s2 \<and> playMode s2 = Proxy)"
proof -
  define s1 where "s1 = runEffect example_url cors_probe_failure True initial_state"
  define evs where "evs = [EffectCleanedUp, EffectRuns example_url cors_probe_failure True,
                HlsError fatal_network_error True, TimerFired 0, RetryClicked,
                HlsError cors_blocked_manifest True]"
  have h: "useDirectPlay initial_state" "example_url \<noteq> []"
    "\<not> success' cors_probe_failure" "reason cors_probe_failure = Some Cors"
    "engine initial_state = []"
    by (simp_all add: initial_state_def example_url_def js_def cors_probe_failure_def)
  have a: "\<not> useDirectPlay s1 \<and> playMode s1 = Proxy \<and> engine s1 = []"
    using proxied_never_reverts[of initial_state "[]" example_url cors_probe_failure True] h
    by (simp add: Let_def s1_def)
  have b: "\<not> useDirectPlay (foldl react s1 evs) \<and> playMode (foldl react s1 evs) = Proxy"
    using proxied_never_reverts[of s1 evs example_url cors_probe_failure True] a by blast
  show ?thesis
    unfolding Let_def s1_def[symmetric] evs_def[symmetric] using h a b by simp
qed

section \<open>Properties of the resolver\<close>

lemma searchAnime_failed: "failed (fetch_search remote k) \<Longrightarrow> searchAnime remote k = []"
  by (auto simp: searchAnime_def failed_def split: fetched.splits)

lemma getBangumi_failed: "failed (fetch_bangumi remote i) \<Longrightarrow> getBangumi remote i = None"
  by (auto simp: getBangumi_def failed_def split: fetched.splits)

lemma getComments_failed: "failed (fetch_comment remote i) \<Longrightarrow> getComments remote pf i = []"
  by (auto simp: getComments_def failed_def split: fetched.splits)

lemma matchAnime_failed: "failed (fetch_match remote f) \<Longrightarrow> matchAnime remote f = None"
  by (auto simp: matchAnime_def failed_def split: fetched.splits)

lemma autoLoad_try_all_failed:
  assumes "\<forall>f. failed (fetch_match remote f)" and "\<forall>k. failed (fetch_search remote k)"
  shows "autoLoad_try remote pf dbl title = Inr notFound"
  using assms
  by (simp add: autoLoad_try_def matchAnime_failed usableMatch_def searchFallback_def
      searchAnime_failed split: list.splits)

text \<open>
  C2, as amended. \<open>autoLoadDanmaku\<close> always returns a result and never an exception.
  A blank title gives the failure "empty title" at once. An exception inside the body of
  its \<open>try\<close> gives the failure "auto-load failed". A request that fails is absorbed
  by the client function, which returns its empty result, and the chain goes on: after a
  failed match request the search fallback runs, and when the match and search requests
  all fail the result is the failure "not found".
\<close>

theorem autoLoadDanmaku_never_throws:
  "(\<exists>r. autoLoadDanmaku remote pf dbl title = Inr r) \<and>
   (blank title \<longrightarrow>
      autoLoadDanmaku remote pf dbl title =
        Inr \<lparr> success = False, danmaku = [], matchedTitle = None, episodeTitle' = None,
              message' = MsgEmptyTitle \<rparr>) \<and>
   (\<not> blank title \<and> (\<exists>e. autoLoad_try remote pf dbl title = Inl e) \<longrightarrow>
      autoLoadDanmaku remote pf dbl title =
        Inr \<lparr> success = False, danmaku = [], matchedTitle = None, episodeTitle' = None,
              message' = MsgAutoLoadFailed \<rparr>) \<and>
   (failed (fetch_match remote title) \<longrightarrow> matchAnime remote title = None \<and>
      autoLoad_try remote pf dbl title = searchFallback remote pf dbl title) \<and>
   (\<forall>k. failed (fetch_search remote k) \<longrightarrow> searchAnime remote k = []) \<and>
   (\<forall>i. failed (fetch_bangumi remote i) \<longrightarrow> getBangumi remote i = None) \<and>
   (\<forall>i. failed (fetch_comment remote i) \<longrightarrow> getComments remote pf i = []) \<and>
   (\<not> blank title \<and> (\<forall>f. failed (fetch_match remote f)) \<and> (\<forall>k. failed (fetch_search remote k)) \<longrightarrow>
      autoLoadDanmaku remote pf dbl title = Inr notFound)"
proof -
  have a: "\<exists>r. autoLoadDanmaku remote pf dbl title = Inr r"
    by (simp add: autoLoadDanmaku_def split: sum.splits)
  have b: "blank title \<Longrightarrow> autoLoadDanmaku remote pf dbl title =
        Inr \<lparr> success = False, danmaku = [], matchedTitle = None, episodeTitle' = None,
              message' = MsgEmptyTitle \<rparr>"
    by (auto simp: autoLoadDanmaku_def blank_def)
  have c: "\<not> blank title \<and> (\<exists>e. autoLoad_try remote pf dbl title = Inl e) \<Longrightarrow>
      autoLoadDanmaku remote pf dbl title =
        Inr \<lparr> success = False, danmaku = [], matchedTitle = None, episodeTitle' = None,
              message' = MsgAutoLoadFailed \<rparr>"
    by (auto simp: autoLoadDanmaku_def blank_def)
  have d: "failed (fetch_match remote title) \<Longrightarrow> matchAnime remote title = None \<and>
      autoLoad_try remote pf dbl title = searchFallback remote pf dbl title"
    by (simp add: matchAnime_failed autoLoad_try_def usableMatch_def)
  have e: "\<not> blank title \<and> (\<forall>f. failed (fetch_match remote f)) \<and> (\<forall>k. failed (fetch_search remote k)) \<Longrightarrow>
      autoLoadDanmaku remote pf dbl title = Inr notFound"
    by (auto simp: autoLoadDanmaku_def blank_def autoLoad_try_all_failed)
  show ?thesis
    using a b c d e searchAnime_failed[of remote] getBangumi_failed[of remote]
      getComments_failed[of remote _ pf]
    by blast
qed

lemmas rx_eval =
  exec_at_def match_group1_def replace_first_def ci_def opt_def plus_def digit_def oneOf_def
  separators_def rx_episode_token_def rx_season_episode_def rx_extension_def
  rx_season_markers_def rx_resolution_def rx_codec_def rx_year_def rx_punctuation_def
  rx_spaces_def

lemma keyword_Ab_E07: "extractSearchKeyword (js ''Ab E07'') = js ''Ab''"
  by (simp add: extractSearchKeyword_def rx_eval js_def isDigit_def isWhiteSpace_def trim_def)

lemma episodeMatch_Ab_E07: "episodeMatch (js ''Ab E07'') = Some (Some (js ''07''))"
  by (simp add: episodeMatch_def rx_eval js_def isDigit_def)

lemma not_blank_Ab_E07: "\<not> blank (js ''Ab E07'')"
  by (simp add: blank_def trim_def js_def isWhiteSpace_def)

lemma blank_spaces: "blank (js ''  '')"
  by (simp add: blank_def trim_def js_def isWhiteSpace_def)

lemma search_Ab: "searchAnime (example_catalog detail) (js ''Ab'') =
    [\<lparr> animeId = 5, bangumiId = js ''5'', animeTitle = js ''Ab'', episodeCount = 2 \<rparr>]"
  by (simp add: searchAnime_def example_catalog_def trim_def js_def isWhiteSpace_def)

lemma bangumi_5: "getBangumi (example_catalog detail) 5 = Some detail"
  by (simp add: getBangumi_def example_catalog_def)

lemma match_example: "usableMatch (matchAnime (example_catalog detail) title) = None"
  by (simp add: usableMatch_def matchAnime_def example_catalog_def)

lemma comments_107: "getComments (example_catalog detail) pf 107 = [convertToDanmakuItem pf example_comment]"
  by (simp add: getComments_def example_catalog_def)

lemma try_without_episodes:
  "autoLoad_try (example_catalog \<lparr> isOnAir = False, episodes = None \<rparr>) pf dbl (js ''Ab E07'') = Inl TypeError"
proof -
  have k: "extractSearchKeyword (js ''Ab E07'') = 65 # [98]"
    by (simp add: keyword_Ab_E07) (simp add: js_def)
  have s: "searchAnime (example_catalog \<lparr> isOnAir = False, episodes = None \<rparr>) (65 # [98]) =
     [\<lparr> animeId = 5, bangumiId = js ''5'', animeTitle = js ''Ab'', episodeCount = 2 \<rparr>]"
    using search_Ab[of "\<lparr> isOnAir = False, episodes = None \<rparr>"] by (simp add: js_def)
  show ?thesis
    by (simp add: autoLoad_try_def match_example searchFallback_def k s bangumi_5)
qed

theorem autoLoadDanmaku_never_throws_witness:
  "blank (js ''  '') \<and>
   autoLoadDanmaku unreachable_catalog (\<lambda>_. NaN) exact_double (js ''  '') =
     Inr \<lparr> success = False, danmaku = [], matchedTitle = None, episodeTitle' = None,
           message' = MsgEmptyTitle \<rparr> \<and>
   \<not> blank (js ''Ab E07'') \<and>
   autoLoad_try (example_catalog \<lparr> isOnAir = False, episodes = None \<rparr>) (\<lambda>_. NaN) exact_double (js ''Ab E07'') =
     Inl TypeError \<and>
   autoLoadDanmaku (example_catalog \<lparr> isOnAir = False, episodes = None \<rparr>) (\<lambda>_. NaN) exact_double (js ''Ab E07'') =
     Inr \<lparr> success = False, danmaku = [], matchedTitle = None, episodeTitle' = None,
           message' = MsgAutoLoadFailed \<rparr> \<and>
   (\<forall>f. failed (fetch_match unreachable_catalog f)) \<and>
   (\<forall>k. failed (fetch_search unreachable_catalog k)) \<and>
   autoLoadDanmaku unreachable_catalog (\<lambda>_. NaN) exact_double (js ''Ab E07'') = Inr notFound \<and>
   matchAnime unreachable_catalog (js ''Ab E07'') = None \<and>
   autoLoad_try unreachable_catalog (\<lambda>_. NaN) exact_double (js ''Ab E07'') =
     searchFallback unreachable_catalog (\<lambda>_. NaN) exact_double (js ''Ab E07'') \<and>
   searchAnime unreachable_catalog (js ''Ab'') = [] \<and>
   failed (fetch_bangumi unreachable_catalog 5) \<and>
   getBangumi unreachable_catalog 5 = None \<and>
   failed (fetch_comment unreachable_catalog 107) \<and>
   getComments unreachable_catalog (\<lambda>_. NaN) 107 = []"
proof -
  have f: "\<forall>f. failed (fetch_match unreachable_catalog f)"
    "\<forall>k. failed (fetch_search unreachable_catalog k)"
    by (simp_all add: unreachable_catalog_def failed_def)
  have g: "\<forall>i. failed (fetch_bangumi unreachable_catalog i)"
    "\<forall>i. failed (fetch_comment unreachable_catalog i)"
    by (simp_all add: unreachable_catalog_def failed_def)
  have r4: "matchAnime unreachable_catalog (js ''Ab E07'') = None \<and>
     autoLoad_try unreachable_catalog (\<lambda>_. NaN) exact_double (js ''Ab E07'') =
       searchFallback unreachable_catalog (\<lambda>_. NaN) exact_double (js ''Ab E07'') \<and>
     searchAnime unreachable_catalog (js ''Ab'') = [] \<and>
     getBangumi unreachable_catalog 5 = None \<and>
     getComments unreachable_catalog (\<lambda>_. NaN) 107 = []"
    using autoLoadDanmaku_never_throws[of unreachable_catalog "\<lambda>_. NaN" exact_double "js ''Ab E07''"] f g
    by blast
  note t = try_without_episodes[of "\<lambda>_. NaN" exact_double]
  have x: "\<exists>e. autoLoad_try (example_catalog \<lparr> isOnAir = False, episodes = None \<rparr>)
      (\<lambda>_. NaN) exact_double (js ''Ab E07'') = Inl e"
    using t by blast
  have r1: "autoLoadDanmaku unreachable_catalog (\<lambda>_. NaN) exact_double (js ''  '') =
     Inr \<lparr> success = False, danmaku = [], matchedTitle = None, episodeTitle' = None,
           message' = MsgEmptyTitle \<rparr>"
    using autoLoadDanmaku_never_throws[of unreachable_catalog "\<lambda>_. NaN" exact_double "js ''  ''"] blank_spaces
    by blast
  have r2: "autoLoadDanmaku (example_catalog \<lparr> isOnAir = False, episodes = None \<rparr>) (\<lambda>_. NaN)
      exact_double (js ''Ab E07'') =
     Inr \<lparr> success = False, danmaku = [], matchedTitle = None, episodeTitle' = None,
           message' = MsgAutoLoadFailed \<rparr>"
    using autoLoadDanmaku_never_throws[of "example_catalog \<lparr> isOnAir = False, episodes = None \<rparr>"
        "\<lambda>_. NaN" exact_double "js ''Ab E07''"] not_blank_Ab_E07 x
    by blast
  have r3: "autoLoadDanmaku unreachable_catalog (\<lambda>_. NaN) exact_double (js ''Ab E07'') = Inr notFound"
    using autoLoadDanmaku_never_throws[of unreachable_catalog "\<lambda>_. NaN" exact_double "js ''Ab E07''"]
      not_blank_Ab_E07 f
    by blast
  show ?thesis
    using blank_spaces not_blank_Ab_E07 t f g r1 r2 r3 r4 by blast
qed

lemma targetEpisode_example:
  "targetEpisode exact_double (js ''Ab E07'') example_episodes = Some episode_seven"
  by (simp add: targetEpisode_def episodeMatch_Ab_E07 example_episodes_def)
     (simp add: strict_equal_def numberOf_def exact_double_def episode_one_def episode_seven_def
        js_eval)

lemma autoLoad_example:
  "autoLoadDanmaku (example_catalog \<lparr> isOnAir = False, episodes = Some example_episodes \<rparr>) pf
      exact_double (js ''Ab E07'') =
     Inr \<lparr> success = True, danmaku = [convertToDanmakuItem pf example_comment],
           matchedTitle = Some (js ''Ab''), episodeTitle' = Some (js ''Seven''),
           message' = MsgLoadedBySearch 1 \<rparr>"
proof -
  let ?c = "example_catalog \<lparr> isOnAir = False, episodes = Some example_episodes \<rparr>"
  have k: "extractSearchKeyword (js ''Ab E07'') = 65 # [98]"
    by (simp add: keyword_Ab_E07) (simp add: js_def)
  have s: "searchAnime ?c (65 # [98]) =
     [\<lparr> animeId = 5, bangumiId = js ''5'', animeTitle = js ''Ab'', episodeCount = 2 \<rparr>]"
    using search_Ab[of "\<lparr> isOnAir = False, episodes = Some example_episodes \<rparr>"] by (simp add: js_def)
  have e: "episodeId episode_seven = 107" "episodeTitle episode_seven = js ''Seven''"
    by (simp_all add: episode_seven_def)
  have nb: "js ''Ab E07'' \<noteq> [] \<and> trim (js ''Ab E07'') \<noteq> []"
    using not_blank_Ab_E07 by (simp add: blank_def)
  show ?thesis
    using nb
    by (simp add: autoLoadDanmaku_def autoLoad_try_def match_example searchFallback_def k s bangumi_5
        targetEpisode_example e comments_107)
qed

text \<open>
  C2 as stated fails: with a match request that fails, the result can be a success; and
  when every request fails, the message is "not found", not "auto-load failed".
\<close>

theorem io_failure_not_auto_load_failed:
  "failed (fetch_match (example_catalog \<lparr> isOnAir = False, episodes = Some example_episodes \<rparr>)
      (js ''Ab E07'')) \<and>
   autoLoadDanmaku (example_catalog \<lparr> isOnAir = False, episodes = Some example_episodes \<rparr>)
      (\<lambda>_. Finite (3 / 2)) exact_double (js ''Ab E07'') =
     Inr \<lparr> success = True, danmaku = [convertToDanmakuItem (\<lambda>_. Finite (3 / 2)) example_comment],
           matchedTitle = Some (js ''Ab''), episodeTitle' = Some (js ''Seven''),
           message' = MsgLoadedBySearch 1 \<rparr> \<and>
   failed (fetch_match unreachable_catalog (js ''Ab E07'')) \<and>
   failed (fetch_search unreachable_catalog (js ''Ab'')) \<and>
   autoLoadDanmaku unreachable_catalog (\<lambda>_. Finite (3 / 2)) exact_double (js ''Ab E07'') = Inr notFound \<and>
   message' notFound = MsgNotFound \<and> MsgNotFound \<noteq> MsgAutoLoadFailed"
proof -
  have f: "\<forall>f. failed (fetch_match unreachable_catalog f)"
    "\<forall>k. failed (fetch_search unreachable_catalog k)"
    "failed (fetch_match (example_catalog \<lparr> isOnAir = False, episodes = Some example_episodes \<rparr>)
      (js ''Ab E07''))"
    by (simp_all add: unreachable_catalog_def example_catalog_def failed_def)
  have nb: "js ''Ab E07'' \<noteq> [] \<and> trim (js ''Ab E07'') \<noteq> []"
    using not_blank_Ab_E07 by (simp add: blank_def)
  have u: "autoLoadDanmaku unreachable_catalog (\<lambda>_. Finite (3 / 2)) exact_double (js ''Ab E07'') = Inr notFound"
    using nb by (simp add: autoLoadDanmaku_def autoLoad_try_all_failed[OF f(1,2)])
  show ?thesis
    using f u autoLoad_example[of "\<lambda>_. Finite (3 / 2)"] by (simp add: notFound_def)
qed

lemma same_number_None: "\<not> same_number dbl x None"
  by (simp add: same_number_def strict_equal_def numberOf_def)

lemma targetEpisode_find:
  "targetEpisode dbl title (e0 # rest) =
     Some (case find (\<lambda>e. same_number dbl (parseInt (episodeNumber e)) (episode_token title))
                  (e0 # rest) of
             None \<Rightarrow> e0
           | Some found \<Rightarrow> found)"
proof (cases "episodeMatch title")
  case None
  have "find (\<lambda>e. False) (e0 # rest) = None"
    by (simp only: find_None_iff) simp
  with None show ?thesis
    by (simp add: targetEpisode_def episode_token_def same_number_None)
next
  case (Some g)
  then show ?thesis
    by (simp add: targetEpisode_def episode_token_def same_number_def)
qed

lemma find_first_such:
  assumes "\<exists>e \<in> set es. f e"
  shows "\<exists>found. find f es = Some found \<and> f found \<and> found \<in> set es"
proof -
  have "find f es \<noteq> None"
    using assms by (simp only: find_None_iff) blast
  then obtain found where h: "find f es = Some found" by blast
  then have "f found \<and> found \<in> set es"
    by (metis find_Some_iff nth_mem)
  with h show ?thesis by blast
qed

lemma find_none_such:
  assumes "\<forall>e \<in> set es. \<not> f e"
  shows "find f es = None"
  using assms by (simp only: find_None_iff) blast

text \<open>
  C4. In the search fallback (no usable match, a keyword, a first search result whose detail
  has episodes), the comments are fetched for the chosen episode, which is an episode of
  the detail. When some episode's \<open>episodeNumber\<close> parses to the same number as the
  title's token, the chosen episode is the first such episode of the list; when no
  episode's number equals the token's, or the title has no token, the chosen episode is
  the first of the list. The token is looked for with the first expression, and with the
  second only when the first finds nothing.
\<close>

theorem search_fallback_selects_episode:
  assumes "\<not> blank title"
    and "usableMatch (matchAnime remote title) = None"
    and "extractSearchKeyword title \<noteq> []"
    and "searchAnime remote (extractSearchKeyword title) = a # others"
    and "getBangumi remote (animeId a) = Some detail"
    and "episodes detail = Some (e0 # rest)"
  shows "\<exists>target.
     targetEpisode dbl title (e0 # rest) = Some target \<and> target \<in> set (e0 # rest) \<and>
     autoLoadDanmaku remote pf dbl title =
       (case getComments remote pf (episodeId target) of
          [] \<Rightarrow> Inr notFound
        | d # ds \<Rightarrow>
            Inr \<lparr> success = True, danmaku = d # ds, matchedTitle = Some (animeTitle a),
                  episodeTitle' = Some (episodeTitle target),
                  message' = MsgLoadedBySearch (length (d # ds)) \<rparr>) \<and>
     ((\<exists>e \<in> set (e0 # rest). same_number dbl (parseInt (episodeNumber e)) (episode_token title)) \<longrightarrow>
        same_number dbl (parseInt (episodeNumber target)) (episode_token title) \<and>
        find (\<lambda>e. same_number dbl (parseInt (episodeNumber e)) (episode_token title)) (e0 # rest) =
          Some target) \<and>
     ((\<forall>e \<in> set (e0 # rest). \<not> same_number dbl (parseInt (episodeNumber e)) (episode_token title)) \<longrightarrow>
        target = e0) \<and>
     (episodeMatch title = None \<longrightarrow> episode_token title = None \<and> target = e0) \<and>
     (\<forall>g. match_group1 rx_episode_token title = Some g \<longrightarrow> episodeMatch title = Some g) \<and>
     (match_group1 rx_episode_token title = None \<longrightarrow>
        episodeMatch title = match_group1 rx_season_episode title)"
proof -
  let ?same = "\<lambda>e. same_number dbl (parseInt (episodeNumber e)) (episode_token title)"
  define target where "target = (case find ?same (e0 # rest) of None \<Rightarrow> e0 | Some found \<Rightarrow> found)"
  have tg: "targetEpisode dbl title (e0 # rest) = Some target"
    unfolding target_def by (rule targetEpisode_find)
  have yes: "(\<exists>e \<in> set (e0 # rest). ?same e) \<Longrightarrow>
      ?same target \<and> find ?same (e0 # rest) = Some target \<and> target \<in> set (e0 # rest)"
  proof -
    assume "\<exists>e \<in> set (e0 # rest). ?same e"
    then obtain found where "find ?same (e0 # rest) = Some found" "?same found"
      "found \<in> set (e0 # rest)"
      using find_first_such[of "e0 # rest" ?same] by blast
    then show ?thesis by (simp add: target_def)
  qed
  have no: "(\<forall>e \<in> set (e0 # rest). \<not> ?same e) \<Longrightarrow> target = e0"
    using find_none_such[of "e0 # rest" ?same] by (simp add: target_def)
  have mem: "target \<in> set (e0 # rest)"
  proof (cases "\<exists>e \<in> set (e0 # rest). ?same e")
    case True
    then show ?thesis using yes by blast
  next
    case False
    then have "target = e0" using no by blast
    then show ?thesis by simp
  qed
  have nt: "episodeMatch title = None \<Longrightarrow> episode_token title = None \<and> target = e0"
  proof -
    assume "episodeMatch title = None"
    then have t: "episode_token title = None" by (simp add: episode_token_def)
    then have "\<forall>e \<in> set (e0 # rest). \<not> ?same e" by (simp add: same_number_None)
    with no t show ?thesis by blast
  qed
  obtain k ks where k: "extractSearchKeyword title = k # ks"
    using assms(3) by (cases "extractSearchKeyword title") auto
  have sf: "searchFallback remote pf dbl title =
       (case getComments remote pf (episodeId target) of
          [] \<Rightarrow> Inr notFound
        | d # ds \<Rightarrow>
            Inr \<lparr> success = True, danmaku = d # ds, matchedTitle = Some (animeTitle a),
                  episodeTitle' = Some (episodeTitle target),
                  message' = MsgLoadedBySearch (length (d # ds)) \<rparr>)"
    using assms(4,5,6) tg k by (simp add: searchFallback_def)
  have al: "autoLoadDanmaku remote pf dbl title = searchFallback remote pf dbl title"
    using assms(1,2) sf
    by (auto simp: autoLoadDanmaku_def autoLoad_try_def blank_def split: list.splits)
  have pr: "(\<forall>g. match_group1 rx_episode_token title = Some g \<longrightarrow> episodeMatch title = Some g) \<and>
     (match_group1 rx_episode_token title = None \<longrightarrow>
        episodeMatch title = match_group1 rx_season_episode title)"
    by (simp add: episodeMatch_def)
  have "targetEpisode dbl title (e0 # rest) = Some target \<and> target \<in> set (e0 # rest) \<and>
     autoLoadDanmaku remote pf dbl title =
       (case getComments remote pf (episodeId target) of
          [] \<Rightarrow> Inr notFound
        | d # ds \<Rightarrow>
            Inr \<lparr> success = True, danmaku = d # ds, matchedTitle = Some (animeTitle a),
                  episodeTitle' = Some (episodeTitle target),
                  message' = MsgLoadedBySearch (length (d # ds)) \<rparr>) \<and>
     ((\<exists>e \<in> set (e0 # rest). ?same e) \<longrightarrow>
        ?same target \<and> find ?same (e0 # rest) = Some target) \<and>
     ((\<forall>e \<in> set (e0 # rest). \<not> ?same e) \<longrightarrow> target = e0) \<and>
     (episodeMatch title = None \<longrightarrow> episode_token title = None \<and> target = e0) \<and>
     (\<forall>g. match_group1 rx_episode_token title = Some g \<longrightarrow> episodeMatch title = Some g) \<and>
     (match_group1 rx_episode_token title = None \<longrightarrow>
        episodeMatch title = match_group1 rx_season_episode title)"
    using tg mem al sf yes no nt pr by (intro conjI impI) (simp_all only:, blast+)
  then show ?thesis by (rule exI)
qed

lemma episode_token_Ab_E07: "episode_token (js ''Ab E07'') = Some 7"
  by (simp add: episode_token_def episodeMatch_Ab_E07) (simp add: js_eval)

lemma same_number_exact: "same_number exact_double (Some x) (Some y) \<longleftrightarrow> x = y"
  by (simp add: same_number_def strict_equal_def numberOf_def exact_double_def)

lemma keyword_Ab: "extractSearchKeyword (js ''Ab'') = js ''Ab''"
  by (simp add: extractSearchKeyword_def rx_eval js_def isDigit_def isWhiteSpace_def trim_def)

lemma episodeMatch_Ab: "episodeMatch (js ''Ab'') = None"
  by (simp add: episodeMatch_def rx_eval js_def isDigit_def)

lemma not_blank_Ab: "\<not> blank (js ''Ab'')"
  by (simp add: blank_def trim_def js_def isWhiteSpace_def)

lemma comments_101: "getComments (example_catalog detail) pf 101 = []"
  by (simp add: getComments_def example_catalog_def)

theorem search_fallback_selects_episode_witness:
  "(let remote = example_catalog \<lparr> isOnAir = False, episodes = Some example_episodes \<rparr>;
        first_anime = \<lparr> animeId = 5, bangumiId = js ''5'', animeTitle = js ''Ab'', episodeCount = 2 \<rparr> in
    \<not> blank (js ''Ab E07'') \<and>
    usableMatch (matchAnime remote (js ''Ab E07'')) = None \<and>
    extractSearchKeyword (js ''Ab E07'') \<noteq> [] \<and>
    searchAnime remote (extractSearchKeyword (js ''Ab E07'')) = first_anime # [] \<and>
    getBangumi remote (animeId first_anime) =
      Some \<lparr> isOnAir = False, episodes = Some example_episodes \<rparr> \<and>
    example_episodes = episode_one # [episode_seven] \<and>
    episode_token (js ''Ab E07'') = Some 7 \<and>
    parseInt (episodeNumber episode_seven) = Some 7 \<and>
    same_number exact_double (parseInt (episodeNumber episode_seven)) (episode_token (js ''Ab E07'')) \<and>
    targetEpisode exact_double (js ''Ab E07'') example_episodes = Some episode_seven \<and>
    episode_seven \<noteq> episode_one \<and>
    autoLoadDanmaku remote (\<lambda>_. NaN) exact_double (js ''Ab E07'') =
      Inr \<lparr> success = True, danmaku = [convertToDanmakuItem (\<lambda>_. NaN) example_comment],
            matchedTitle = Some (js ''Ab''), episodeTitle' = Some (js ''Seven''),
            message' = MsgLoadedBySearch 1 \<rparr>) \<and>
   (let remote = example_catalog \<lparr> isOnAir = False, episodes = Some example_episodes \<rparr>;
        first_anime = \<lparr> animeId = 5, bangumiId = js ''5'', animeTitle = js ''Ab'', episodeCount = 2 \<rparr> in
    \<not> blank (js ''Ab'') \<and>
    usableMatch (matchAnime remote (js ''Ab'')) = None \<and>
    extractSearchKeyword (js ''Ab'') \<noteq> [] \<and>
    searchAnime remote (extractSearchKeyword (js ''Ab'')) = first_anime # [] \<and>
    episodeMatch (js ''Ab'') = None \<and>
    targetEpisode exact_double (js ''Ab'') example_episodes = Some episode_one \<and>
    autoLoadDanmaku remote (\<lambda>_. NaN) exact_double (js ''Ab'') = Inr notFound)"
proof -
  define detail where "detail = \<lparr> isOnAir = False, episodes = Some example_episodes \<rparr>"
  define remote where "remote = example_catalog detail"
  define first_anime where
    "first_anime = \<lparr> animeId = 5, bangumiId = js ''5'', animeTitle = js ''Ab'', episodeCount = 2 \<rparr>"
  have h1: "\<not> blank (js ''Ab E07'')"
    by (rule not_blank_Ab_E07)
  have h2: "usableMatch (matchAnime remote (js ''Ab E07'')) = None"
    unfolding remote_def by (rule match_example)
  have h3: "extractSearchKeyword (js ''Ab E07'') \<noteq> []"
    by (simp add: keyword_Ab_E07) (simp add: js_def)
  have h4: "searchAnime remote (extractSearchKeyword (js ''Ab E07'')) = first_anime # []"
    unfolding remote_def first_anime_def by (simp add: keyword_Ab_E07 search_Ab)
  have h5: "getBangumi remote (animeId first_anime) = Some detail"
    unfolding remote_def first_anime_def by (simp add: bangumi_5)
  have h6: "episodes detail = Some (episode_one # [episode_seven])"
    by (simp add: detail_def example_episodes_def)
  have tok: "episode_token (js ''Ab E07'') = Some 7"
    by (rule episode_token_Ab_E07)
  have seven: "parseInt (episodeNumber episode_seven) = Some 7"
    by (simp add: episode_seven_def js_eval)
  have one: "parseInt (episodeNumber episode_one) = Some 1"
    by (simp add: episode_one_def js_eval)
  have same: "same_number exact_double (parseInt (episodeNumber episode_seven))
      (episode_token (js ''Ab E07''))"
    by (simp add: tok seven same_number_exact)
  have ne: "episode_seven \<noteq> episode_one"
    by (simp add: episode_seven_def episode_one_def)
  obtain target where
    t1: "targetEpisode exact_double (js ''Ab E07'') (episode_one # [episode_seven]) = Some target" and
    t2: "autoLoadDanmaku remote (\<lambda>_. NaN) exact_double (js ''Ab E07'') =
       (case getComments remote (\<lambda>_. NaN) (episodeId target) of
          [] \<Rightarrow> Inr notFound
        | d # ds \<Rightarrow>
            Inr \<lparr> success = True, danmaku = d # ds, matchedTitle = Some (animeTitle first_anime),
                  episodeTitle' = Some (episodeTitle target),
                  message' = MsgLoadedBySearch (length (d # ds)) \<rparr>)" and
    t3: "(\<exists>e \<in> set (episode_one # [episode_seven]).
            same_number exact_double (parseInt (episodeNumber e)) (episode_token (js ''Ab E07''))) \<longrightarrow>
          find (\<lambda>e. same_number exact_double (parseInt (episodeNumber e))
                        (episode_token (js ''Ab E07''))) (episode_one # [episode_seven]) = Some target"
    using search_fallback_selects_episode[OF h1 h2 h3 h4 h5 h6, of exact_double "\<lambda>_. NaN"] by blast
  have "find (\<lambda>e. same_number exact_double (parseInt (episodeNumber e))
                        (episode_token (js ''Ab E07''))) (episode_one # [episode_seven]) = Some target"
    using t3 same by simp
  then have tg: "target = episode_seven"
    by (simp add: tok one seven same_number_exact)
  have t: "targetEpisode exact_double (js ''Ab E07'') example_episodes = Some episode_seven"
    using t1 tg by (simp add: example_episodes_def)
  have r: "autoLoadDanmaku remote (\<lambda>_. NaN) exact_double (js ''Ab E07'') =
      Inr \<lparr> success = True, danmaku = [convertToDanmakuItem (\<lambda>_. NaN) example_comment],
            matchedTitle = Some (js ''Ab''), episodeTitle' = Some (js ''Seven''),
            message' = MsgLoadedBySearch 1 \<rparr>"
    by (subst t2) (simp add: tg remote_def first_anime_def episode_seven_def comments_107)
  have with_token:
    "\<not> blank (js ''Ab E07'') \<and>
     usableMatch (matchAnime remote (js ''Ab E07'')) = None \<and>
     extractSearchKeyword (js ''Ab E07'') \<noteq> [] \<and>
     searchAnime remote (extractSearchKeyword (js ''Ab E07'')) = first_anime # [] \<and>
     getBangumi remote (animeId first_anime) =
       Some \<lparr> isOnAir = False, episodes = Some example_episodes \<rparr> \<and>
     example_episodes = episode_one # [episode_seven] \<and>
     episode_token (js ''Ab E07'') = Some 7 \<and>
     parseInt (episodeNumber episode_seven) = Some 7 \<and>
     same_number exact_double (parseInt (episodeNumber episode_seven)) (episode_token (js ''Ab E07'')) \<and>
     targetEpisode exact_double (js ''Ab E07'') example_episodes = Some episode_seven \<and>
     episode_seven \<noteq> episode_one \<and>
     autoLoadDanmaku remote (\<lambda>_. NaN) exact_double (js ''Ab E07'') =
       Inr \<lparr> success = True, danmaku = [convertToDanmakuItem (\<lambda>_. NaN) example_comment],
             matchedTitle = Some (js ''Ab''), episodeTitle' = Some (js ''Seven''),
             message' = MsgLoadedBySearch 1 \<rparr>"
    using h1 h2 h3 h4 h5 tok seven same t ne r
    by (simp add: detail_def example_episodes_def)
  have g1: "\<not> blank (js ''Ab'')"
    by (rule not_blank_Ab)
  have g2: "usableMatch (matchAnime remote (js ''Ab'')) = None"
    unfolding remote_def by (rule match_example)
  have g3: "extractSearchKeyword (js ''Ab'') \<noteq> []"
    by (simp add: keyword_Ab) (simp add: js_def)
  have g4: "searchAnime remote (extractSearchKeyword (js ''Ab'')) = first_anime # []"
    unfolding remote_def first_anime_def by (simp add: keyword_Ab search_Ab)
  have nm: "episodeMatch (js ''Ab'') = None"
    by (rule episodeMatch_Ab)
  obtain chosen where
    f1: "targetEpisode exact_double (js ''Ab'') (episode_one # [episode_seven]) = Some chosen" and
    f2: "autoLoadDanmaku remote (\<lambda>_. NaN) exact_double (js ''Ab'') =
       (case getComments remote (\<lambda>_. NaN) (episodeId chosen) of
          [] \<Rightarrow> Inr notFound
        | d # ds \<Rightarrow>
            Inr \<lparr> success = True, danmaku = d # ds, matchedTitle = Some (animeTitle first_anime),
                  episodeTitle' = Some (episodeTitle chosen),
                  message' = MsgLoadedBySearch (length (d # ds)) \<rparr>)" and
    f3: "episodeMatch (js ''Ab'') = None \<longrightarrow> episode_token (js ''Ab'') = None \<and> chosen = episode_one"
    using search_fallback_selects_episode[OF g1 g2 g3 g4 h5 h6, of exact_double "\<lambda>_. NaN"]
    by (elim exE conjE) (rule that, assumption+)
  have fg: "chosen = episode_one"
    using f3 nm by blast
  have ft: "targetEpisode exact_double (js ''Ab'') example_episodes = Some episode_one"
    using f1 fg by (simp add: example_episodes_def)
  have fr: "autoLoadDanmaku remote (\<lambda>_. NaN) exact_double (js ''Ab'') = Inr notFound"
    by (subst f2) (simp add: fg remote_def episode_one_def comments_101)
  have without_token:
    "\<not> blank (js ''Ab'') \<and>
     usableMatch (matchAnime remote (js ''Ab'')) = None \<and>
     extractSearchKeyword (js ''Ab'') \<noteq> [] \<and>
     searchAnime remote (extractSearchKeyword (js ''Ab'')) = first_anime # [] \<and>
     episodeMatch (js ''Ab'') = None \<and>
     targetEpisode exact_double (js ''Ab'') example_episodes = Some episode_one \<and>
     autoLoadDanmaku remote (\<lambda>_. NaN) exact_double (js ''Ab'') = Inr notFound"
    using g1 g2 g3 g4 nm ft fr by simp
  show ?thesis
    unfolding Let_def remote_def[symmetric, unfolded detail_def] first_anime_def[symmetric]
    using with_token without_token by (rule conjI)
qed

end
